theory Spec2Isabelle
  imports Complex_Main "HOL-Library.Sublist" "HOL-Library.Multiset" "HOL-Library.AList"
begin

chapter \<open>numjuggler: renumbering of MCNP input decks\<close>

text \<open>
  A shallow embedding of the modules \<^verbatim>\<open>names.py\<close>, \<^verbatim>\<open>parser.py\<close> and
  \<^verbatim>\<open>numbering.py\<close>.  Python strings are \<^typ>\<open>string\<close>, Python integers are
  \<^typ>\<open>int\<close>, a raised exception is the left injection of a sum, a generator is the list
  of the values it yields.
\<close>

section \<open>Python values, exceptions and string operations\<close>

text \<open>
  The exceptions the modelled code can raise.  \<open>FormatField\<close> stands for a replacement
  field of \<^verbatim>\<open>str.format\<close> of a form the program never writes itself (an explicit index,
  a name, a conversion, another format specification): what Python does with it is
  not modelled, and no statement below depends on it.
\<close>

datatype error =
  IndexError | ValueError | KeyError | TypeError | AttributeError | NameError
  | UnboundLocalError | FormatField

text \<open>A value of a card: an integer for an identifier, a string for a parameter.\<close>

datatype pyval = VInt int | VStr string

definition NL :: char where
  "NL = CHR 0x0A"

definition isspace :: "char \<Rightarrow> bool" where
  "isspace c \<longleftrightarrow> c \<in> {CHR '' '', CHR 0x09, CHR 0x0A, CHR 0x0B, CHR 0x0C, CHR 0x0D}"

definition isdigit :: "char \<Rightarrow> bool" where
  "isdigit c \<longleftrightarrow> c \<in> set ''0123456789''"

definition upper_letters :: string where
  "upper_letters = ''ABCDEFGHIJKLMNOPQRSTUVWXYZ''"

definition lower_letters :: string where
  "lower_letters = ''abcdefghijklmnopqrstuvwxyz''"

definition isalpha :: "char \<Rightarrow> bool" where
  "isalpha c \<longleftrightarrow> c \<in> set upper_letters \<or> c \<in> set lower_letters"

definition lower_char :: "char \<Rightarrow> char" where
  "lower_char c = (case map_of (zip upper_letters lower_letters) c of Some d \<Rightarrow> d | None \<Rightarrow> c)"

definition lower :: "string \<Rightarrow> string" where
  "lower s = map lower_char s"

definition lstrip :: "string \<Rightarrow> string" where
  "lstrip s = dropWhile isspace s"

definition rstrip :: "string \<Rightarrow> string" where
  "rstrip s = rev (dropWhile isspace (rev s))"

definition strip :: "string \<Rightarrow> string" where
  "strip s = rstrip (lstrip s)"

text \<open>\<^verbatim>\<open>s.split()\<close>: the maximal runs of characters that are not whitespace.\<close>

fun split_go :: "string \<Rightarrow> string \<Rightarrow> string list" where
  "split_go cur [] = (if cur = [] then [] else [cur])"
| "split_go cur (c # cs) =
     (if isspace c then (if cur = [] then split_go [] cs else cur # split_go [] cs)
      else split_go (cur @ [c]) cs)"

definition split_ws :: "string \<Rightarrow> string list" where
  "split_ws s = split_go [] s"

text \<open>\<^verbatim>\<open>s.split(d)\<close> for a separator of one character.\<close>

fun split_on_go :: "char \<Rightarrow> string \<Rightarrow> string \<Rightarrow> string list" where
  "split_on_go d cur [] = [cur]"
| "split_on_go d cur (c # cs) =
     (if c = d then cur # split_on_go d [] cs else split_on_go d (cur @ [c]) cs)"

definition split_on :: "char \<Rightarrow> string \<Rightarrow> string list" where
  "split_on d s = split_on_go d [] s"

text \<open>\<^verbatim>\<open>d.join(xs)\<close> for a separator of one character.\<close>

fun join :: "char \<Rightarrow> string list \<Rightarrow> string" where
  "join d [] = []"
| "join d [x] = x"
| "join d (x # y # ys) = x @ d # join d (y # ys)"

text \<open>\<^verbatim>\<open>s.find(sub)\<close>: the index of the first occurrence, \<open>None\<close> for \<^verbatim>\<open>-1\<close>.\<close>

fun find_sub :: "string \<Rightarrow> string \<Rightarrow> nat option" where
  "find_sub sub [] = (if sub = [] then Some 0 else None)"
| "find_sub sub (c # cs) =
     (if prefix sub (c # cs) then Some 0 else map_option Suc (find_sub sub cs))"

definition contains :: "string \<Rightarrow> string \<Rightarrow> bool" where
  \<comment> \<open>\<^verbatim>\<open>sub in s\<close>\<close>
  "contains sub s \<longleftrightarrow> find_sub sub s \<noteq> None"

text \<open>\<^verbatim>\<open>s.replace(old, new, 1)\<close>: only the first occurrence is replaced.\<close>

definition replace1 :: "string \<Rightarrow> string \<Rightarrow> string \<Rightarrow> string" where
  "replace1 old new s =
     (case find_sub old s of
        None \<Rightarrow> s
      | Some i \<Rightarrow> take i s @ new @ drop (i + length old) s)"

text \<open>\<^verbatim>\<open>s.replace(c, new)\<close> for a pattern of one character: every occurrence.\<close>

definition replace_char :: "char \<Rightarrow> string \<Rightarrow> string \<Rightarrow> string" where
  "replace_char c new s = concat (map (\<lambda>x. if x = c then new else [x]) s)"

text \<open>\<^verbatim>\<open>s.split(sep)\<close> for a separator that is not empty.\<close>

function split_str :: "string \<Rightarrow> string \<Rightarrow> string \<Rightarrow> string list" where
  "split_str sep cur [] = [cur]"
| "split_str sep cur (c # cs) =
     (if sep \<noteq> [] \<and> prefix sep (c # cs)
      then cur # split_str sep [] (drop (length sep) (c # cs))
      else split_str sep (cur @ [c]) cs)"
  by pat_completeness auto
termination
  by (relation "measure (\<lambda>(sep, cur, s). length s)") auto

text \<open>
  \<^verbatim>\<open>int(s)\<close> in base ten: surrounding whitespace is dropped, a sign may stand first,
  at least one digit follows and nothing else.
\<close>

definition digit_val :: "char \<Rightarrow> int" where
  "digit_val c = (case map_of (zip ''0123456789'' [0, 1, 2, 3, 4, 5, 6, 7, 8, 9]) c of
                    Some d \<Rightarrow> d | None \<Rightarrow> 0)"

definition digits_val :: "string \<Rightarrow> int" where
  "digits_val ds = foldl (\<lambda>a c. 10 * a + digit_val c) 0 ds"

definition py_int :: "string \<Rightarrow> error + int" where
  "py_int s =
     (let b = strip s;
          neg = (b \<noteq> [] \<and> hd b = CHR ''-'');
          ds = (if b \<noteq> [] \<and> hd b \<in> {CHR ''+'', CHR ''-''} then tl b else b)
      in if ds \<noteq> [] \<and> list_all isdigit ds
         then Inr (if neg then - digits_val ds else digits_val ds)
         else Inl ValueError)"

text \<open>
  Python 2 has two types of integers.  \<^verbatim>\<open>int(s)\<close> returns an \<^verbatim>\<open>int\<close> when the value lies
  between \<^verbatim>\<open>-sys.maxint - 1\<close> and \<^verbatim>\<open>sys.maxint\<close>, and a \<^verbatim>\<open>long\<close> otherwise; for a \<^verbatim>\<open>long\<close>
  the test \<^verbatim>\<open>isinstance(x, int)\<close> is false.  \<^verbatim>\<open>sys.maxint\<close> is that of a 64-bit build.
\<close>

definition sys_maxint :: int where
  "sys_maxint = 9223372036854775807"

definition is_py_int :: "int \<Rightarrow> bool" where
  \<comment> \<open>\<^verbatim>\<open>isinstance(i, int)\<close> for the result \<open>i\<close> of \<^verbatim>\<open>int(s)\<close>\<close>
  "is_py_int i \<longleftrightarrow> - sys_maxint - 1 \<le> i \<and> i \<le> sys_maxint"

text \<open>\<^verbatim>\<open>str(n)\<close> of an integer.\<close>

definition digit_char :: "nat \<Rightarrow> char" where
  "digit_char d = ''0123456789'' ! d"

fun str_nat :: "nat \<Rightarrow> string" where
  "str_nat n = (if n < 10 then [digit_char n] else str_nat (n div 10) @ [digit_char (n mod 10)])"

declare str_nat.simps [simp del]

definition str_int :: "int \<Rightarrow> string" where
  "str_int i = (if i < 0 then CHR ''-'' # str_nat (nat (- i)) else str_nat (nat i))"

definition py_str :: "pyval \<Rightarrow> string" where
  "py_str v = (case v of VInt i \<Rightarrow> str_int i | VStr s \<Rightarrow> s)"

text \<open>
  \<^verbatim>\<open>s.format(*args)\<close>.  The fields the program writes are \<^verbatim>\<open>{}\<close> and \<^verbatim>\<open>{:<Nd}\<close>
  (\<^verbatim>\<open>fmt_s\<close>, \<^verbatim>\<open>fmt_d\<close>), both numbered automatically; \<^verbatim>\<open>{{\<close> and \<^verbatim>\<open>}}\<close> stand for
  one brace.  A field with a name or an index, which the text of a deck may hold, is not
  modelled (\<open>FormatField\<close>); a field without a name takes the next argument, and
  \<^verbatim>\<open>IndexError\<close> is raised when there is none.
\<close>

definition ljust :: "nat \<Rightarrow> string \<Rightarrow> string" where
  "ljust w s = s @ replicate (w - length s) (CHR '' '')"

definition render_field :: "string \<Rightarrow> pyval \<Rightarrow> error + string" where
  "render_field f v =
     (if f = [] then Inr (py_str v)
      else if length f \<ge> 4 \<and> take 2 f = '':<'' \<and> last f = CHR ''d''
              \<and> list_all isdigit (butlast (drop 2 f)) \<and> hd (drop 2 f) \<noteq> CHR ''0''
      then (case v of
              VInt i \<Rightarrow> Inr (ljust (nat (digits_val (butlast (drop 2 f)))) (str_int i))
            | VStr s \<Rightarrow> Inl ValueError)
      else Inl FormatField)"

datatype fstate = FText | FOpen | FField string | FClose

definition emit :: "string \<Rightarrow> error + string \<Rightarrow> error + string" where
  "emit s r = (case r of Inl e \<Rightarrow> Inl e | Inr t \<Rightarrow> Inr (s @ t))"

fun format_go :: "fstate \<Rightarrow> pyval list \<Rightarrow> string \<Rightarrow> error + string" where
  "format_go FText args [] = Inr []"
| "format_go FText args (c # cs) =
     (if c = CHR ''{'' then format_go FOpen args cs
      else if c = CHR ''}'' then format_go FClose args cs
      else emit [c] (format_go FText args cs))"
| "format_go FOpen args [] = Inl ValueError"
| "format_go FOpen args (c # cs) =
     (if c = CHR ''{'' then emit [c] (format_go FText args cs)
      else if c = CHR ''}'' then
        (case args of
           [] \<Rightarrow> Inl IndexError
         | a # as \<Rightarrow>
             (case render_field [] a of
                Inl e \<Rightarrow> Inl e
              | Inr s \<Rightarrow> emit s (format_go FText as cs)))
      else format_go (FField [c]) args cs)"
| "format_go (FField f) args [] = Inl ValueError"
| "format_go (FField f) args (c # cs) =
     (if c = CHR ''}'' then
        (if take 1 f \<noteq> '':'' then Inl FormatField
         else
           (case args of
              [] \<Rightarrow> Inl IndexError
            | a # as \<Rightarrow>
                (case render_field f a of
                   Inl e \<Rightarrow> Inl e
                 | Inr s \<Rightarrow> emit s (format_go FText as cs))))
      else if c = CHR ''{'' then Inl FormatField
      else format_go (FField (f @ [c])) args cs)"
| "format_go FClose args [] = Inl ValueError"
| "format_go FClose args (c # cs) =
     (if c = CHR ''}'' then emit [c] (format_go FText args cs) else Inl ValueError)"

definition py_format :: "string \<Rightarrow> pyval list \<Rightarrow> error + string" where
  "py_format s args = format_go FText args s"

lemma replicate_numeral_eval: "replicate (numeral v) x = x # replicate (numeral v - 1) x"
  by (simp add: numeral_eq_Suc)

section \<open>names.py: the registries of kinds\<close>

text \<open>
  The three dictionaries of \<^verbatim>\<open>names.py\<close>, without the entry \<^verbatim>\<open>'_'\<close> that
  \<^verbatim>\<open>_TypeName.__init__\<close> pops, written in the order of the source.
\<close>

definition cTypes :: "(string \<times> int) list" where
  "cTypes = [(''comment'', -1), (''blankline'', -2), (''message'', 1), (''title'', 2),
             (''cell'', 3), (''surface'', 4), (''data'', 5)]"

definition eTypes :: "(string \<times> int) list" where
  "eTypes = [(''cell'', 1), (''sur'', 2), (''mat'', 3), (''tr'', 4), (''tal'', 5), (''u'', 6),
             (''fill'', 7), (''den'', -1), (''imp:n'', -2), (''imp:p'', -3), (''tmp'', -4),
             (''nlib'', -5), (''mt'', -6)]"

definition dcTypes :: "(string \<times> int) list" where
  "dcTypes = [(''m'', 1), (''mt'', 2), (''mpn'', 3), (''f'', 4), (''tr'', 5)]"

text \<open>
  \<^verbatim>\<open>_TypeName.__call__\<close> walks \<^verbatim>\<open>self.__data.items()\<close> and returns at the first item
  that matches; the order of the items of a Python 2 dictionary is not the order of the
  source, so the list of items is an argument.  The method is split by the type of its
  argument: for an integer only the test \<^verbatim>\<open>V == v\<close> can hold (no name starts with a
  digit or a sign), for a string only the prefix test.  \<open>None\<close> is the case where the loop
  ends without a match: the default is returned, or \<^verbatim>\<open>ValueError\<close> raised when there is
  none.
\<close>

definition tn_name :: "(string \<times> int) list \<Rightarrow> int \<Rightarrow> string option" where
  "tn_name items V = map_option fst (find (\<lambda>(k, v). V = v) items)"

definition tn_id :: "(string \<times> int) list \<Rightarrow> string \<Rightarrow> int option" where
  "tn_id items V = map_option snd (find (\<lambda>(k, v). V = take (length V) k) items)"

text \<open>The items of \<^verbatim>\<open>eID\<close> in some order.\<close>

definition eID_items :: "(string \<times> int) list \<Rightarrow> bool" where
  "eID_items its \<longleftrightarrow> mset its = mset eTypes"

text \<open>The attributes \<^verbatim>\<open>cID.comment\<close>, \<^verbatim>\<open>eID.cell\<close>, \<^verbatim>\<open>dID.m\<close> and so on.\<close>

definition cID_comment :: int where "cID_comment = -1"
definition cID_blankline :: int where "cID_blankline = -2"
definition cID_message :: int where "cID_message = 1"
definition cID_title :: int where "cID_title = 2"
definition cID_cell :: int where "cID_cell = 3"
definition cID_surface :: int where "cID_surface = 4"
definition cID_data :: int where "cID_data = 5"

definition eID_cell :: int where "eID_cell = 1"
definition eID_sur :: int where "eID_sur = 2"
definition eID_mat :: int where "eID_mat = 3"
definition eID_tr :: int where "eID_tr = 4"
definition eID_tal :: int where "eID_tal = 5"
definition eID_u :: int where "eID_u = 6"
definition eID_fill :: int where "eID_fill = 7"
definition eID_den :: int where "eID_den = -1"
definition eID_imp_n :: int where "eID_imp_n = -2"
definition eID_imp_p :: int where "eID_imp_p = -3"

definition dID_m :: int where "dID_m = 1"
definition dID_mt :: int where "dID_mt = 2"
definition dID_mpn :: int where "dID_mpn = 3"
definition dID_f :: int where "dID_f = 4"
definition dID_tr :: int where "dID_tr = 5"

text \<open>
  \<^verbatim>\<open>eID.values\<close>: the positive identifiers, in the order of the sorted names
  (\<^verbatim>\<open>cell\<close>, \<^verbatim>\<open>fill\<close>, \<^verbatim>\<open>mat\<close>, \<^verbatim>\<open>sur\<close>, \<^verbatim>\<open>tal\<close>, \<^verbatim>\<open>tr\<close>, \<^verbatim>\<open>u\<close>).
\<close>

definition eID_values :: "int list" where
  "eID_values = [1, 7, 3, 2, 5, 4, 6]"

lemma find_unique_filter:
  assumes "set its = set es" and "filter P es = [x]"
  shows "find P its = Some x"
proof -
  have x: "x \<in> set es \<and> P x"
  proof -
    have "x \<in> set (filter P es)" unfolding assms(2) by simp
    then show ?thesis by simp
  qed
  have u: "\<forall>y \<in> set es. P y \<longrightarrow> y = x"
  proof (intro ballI impI)
    fix y assume "y \<in> set es" and "P y"
    then have "y \<in> set (filter P es)" by simp
    then show "y = x" unfolding assms(2) by simp
  qed
  show ?thesis
  proof (cases "find P its")
    case None
    then show ?thesis using assms(1) x by (auto simp: find_None_iff)
  next
    case (Some y)
    then have "y \<in> set its \<and> P y" by (auto simp: find_Some_iff)
    then show ?thesis using assms(1) u Some by auto
  qed
qed

lemma eID_items_set: "eID_items its \<Longrightarrow> set its = set eTypes"
  by (metis eID_items_def mset_eq_setD)

lemma tn_id_unique:
  assumes "eID_items its" and "filter (\<lambda>(k, v). V = take (length V) k) eTypes = [(k, v)]"
  shows "tn_id its V = Some v"
  using find_unique_filter[OF eID_items_set[OF assms(1)] assms(2)] by (simp add: tn_id_def)

lemma tn_id_none:
  assumes "eID_items its" and "filter (\<lambda>(k, v). V = take (length V) k) eTypes = []"
  shows "tn_id its V = None"
proof -
  have "\<forall>y \<in> set eTypes. \<not> (\<lambda>(k, v). V = take (length V) k) y"
    using assms(2) by (simp add: filter_empty_conv)
  then show ?thesis
    using eID_items_set[OF assms(1)] by (auto simp: tn_id_def find_None_iff)
qed

lemma tn_name_unique:
  assumes "eID_items its" and "filter (\<lambda>(k, w). v = w) eTypes = [(k, v)]"
  shows "tn_name its v = Some k"
  using find_unique_filter[OF eID_items_set[OF assms(1)] assms(2)] by (simp add: tn_name_def)

text \<open>
  A name that is the prefix of one registered name only is looked up with the same result
  in every order of the items; so is every identifier.
\<close>

lemma tn_id_cell: "eID_items its \<Longrightarrow> tn_id its ''cell'' = Some (1)"
  by (rule tn_id_unique) (simp_all add: eTypes_def)

lemma tn_id_sur: "eID_items its \<Longrightarrow> tn_id its ''sur'' = Some (2)"
  by (rule tn_id_unique) (simp_all add: eTypes_def)

lemma tn_id_mat: "eID_items its \<Longrightarrow> tn_id its ''mat'' = Some (3)"
  by (rule tn_id_unique) (simp_all add: eTypes_def)

lemma tn_id_tr: "eID_items its \<Longrightarrow> tn_id its ''tr'' = Some (4)"
  by (rule tn_id_unique) (simp_all add: eTypes_def)

lemma tn_id_tal: "eID_items its \<Longrightarrow> tn_id its ''tal'' = Some (5)"
  by (rule tn_id_unique) (simp_all add: eTypes_def)

lemma tn_id_u: "eID_items its \<Longrightarrow> tn_id its ''u'' = Some (6)"
  by (rule tn_id_unique) (simp_all add: eTypes_def)

lemma tn_id_fill: "eID_items its \<Longrightarrow> tn_id its ''fill'' = Some (7)"
  by (rule tn_id_unique) (simp_all add: eTypes_def)

lemma tn_id_den: "eID_items its \<Longrightarrow> tn_id its ''den'' = Some (-1)"
  by (rule tn_id_unique) (simp_all add: eTypes_def)

lemma tn_id_imp_n: "eID_items its \<Longrightarrow> tn_id its ''imp:n'' = Some (-2)"
  by (rule tn_id_unique) (simp_all add: eTypes_def)

lemma tn_id_imp_p: "eID_items its \<Longrightarrow> tn_id its ''imp:p'' = Some (-3)"
  by (rule tn_id_unique) (simp_all add: eTypes_def)

lemma tn_id_tmp: "eID_items its \<Longrightarrow> tn_id its ''tmp'' = Some (-4)"
  by (rule tn_id_unique) (simp_all add: eTypes_def)

lemma tn_id_nlib: "eID_items its \<Longrightarrow> tn_id its ''nlib'' = Some (-5)"
  by (rule tn_id_unique) (simp_all add: eTypes_def)

lemma tn_id_mt: "eID_items its \<Longrightarrow> tn_id its ''mt'' = Some (-6)"
  by (rule tn_id_unique) (simp_all add: eTypes_def)

lemma tn_id_prefix_c: "eID_items its \<Longrightarrow> tn_id its ''c'' = Some (1)"
  by (rule tn_id_unique) (simp_all add: eTypes_def)

lemma tn_id_prefix_s: "eID_items its \<Longrightarrow> tn_id its ''s'' = Some (2)"
  by (rule tn_id_unique) (simp_all add: eTypes_def)

lemma tn_id_prefix_f: "eID_items its \<Longrightarrow> tn_id its ''f'' = Some (7)"
  by (rule tn_id_unique) (simp_all add: eTypes_def)

lemma tn_name_1: "eID_items its \<Longrightarrow> tn_name its (1) = Some ''cell''"
  by (rule tn_name_unique) (simp_all add: eTypes_def)

lemma tn_name_2: "eID_items its \<Longrightarrow> tn_name its (2) = Some ''sur''"
  by (rule tn_name_unique) (simp_all add: eTypes_def)

lemma tn_name_3: "eID_items its \<Longrightarrow> tn_name its (3) = Some ''mat''"
  by (rule tn_name_unique) (simp_all add: eTypes_def)

lemma tn_name_4: "eID_items its \<Longrightarrow> tn_name its (4) = Some ''tr''"
  by (rule tn_name_unique) (simp_all add: eTypes_def)

lemma tn_name_5: "eID_items its \<Longrightarrow> tn_name its (5) = Some ''tal''"
  by (rule tn_name_unique) (simp_all add: eTypes_def)

lemma tn_name_6: "eID_items its \<Longrightarrow> tn_name its (6) = Some ''u''"
  by (rule tn_name_unique) (simp_all add: eTypes_def)

lemma tn_name_7: "eID_items its \<Longrightarrow> tn_name its (7) = Some ''fill''"
  by (rule tn_name_unique) (simp_all add: eTypes_def)

lemma tn_name_m1: "eID_items its \<Longrightarrow> tn_name its (-1) = Some ''den''"
  by (rule tn_name_unique) (simp_all add: eTypes_def)

lemma tn_name_m2: "eID_items its \<Longrightarrow> tn_name its (-2) = Some ''imp:n''"
  by (rule tn_name_unique) (simp_all add: eTypes_def)

lemma tn_name_m3: "eID_items its \<Longrightarrow> tn_name its (-3) = Some ''imp:p''"
  by (rule tn_name_unique) (simp_all add: eTypes_def)

lemma tn_name_m4: "eID_items its \<Longrightarrow> tn_name its (-4) = Some ''tmp''"
  by (rule tn_name_unique) (simp_all add: eTypes_def)

lemma tn_name_m5: "eID_items its \<Longrightarrow> tn_name its (-5) = Some ''nlib''"
  by (rule tn_name_unique) (simp_all add: eTypes_def)

lemma tn_name_m6: "eID_items its \<Longrightarrow> tn_name its (-6) = Some ''mt''"
  by (rule tn_name_unique) (simp_all add: eTypes_def)

lemmas tn_id_simps = tn_id_cell tn_id_sur tn_id_mat tn_id_tr tn_id_tal tn_id_u tn_id_fill tn_id_den tn_id_imp_n tn_id_imp_p tn_id_tmp tn_id_nlib tn_id_mt tn_id_prefix_c tn_id_prefix_s tn_id_prefix_f

lemmas tn_name_simps = tn_name_1 tn_name_2 tn_name_3 tn_name_4 tn_name_5 tn_name_6 tn_name_7 tn_name_m1 tn_name_m2 tn_name_m3 tn_name_m4 tn_name_m5 tn_name_m6

lemma tn_name_cTypes:
  "tn_name cTypes ct =
     (if ct = -1 then Some ''comment'' else if ct = -2 then Some ''blankline''
      else if ct = 1 then Some ''message'' else if ct = 2 then Some ''title''
      else if ct = 3 then Some ''cell'' else if ct = 4 then Some ''surface''
      else if ct = 5 then Some ''data'' else None)"
  by (simp add: tn_name_def cTypes_def)

lemma eID_items_eTypes: "eID_items eTypes"
  by (simp add: eID_items_def)

section \<open>parser.py: the regular expressions\<close>

text \<open>
  Each compiled pattern is modelled by the function that computes what the program asks
  of it (\<^verbatim>\<open>search\<close>, \<^verbatim>\<open>findall\<close>), written out for that pattern.
\<close>

text \<open>
  \<^verbatim>\<open>re_end = '\s[$&]|\n'\<close>, \<^verbatim>\<open>re_end.search(l).start()\<close>: the least index at which a
  whitespace character is followed by \<^verbatim>\<open>$\<close> or \<^verbatim>\<open>&\<close>, or at which a newline stands;
  \<open>None\<close> when \<^verbatim>\<open>search\<close> returns \<^verbatim>\<open>None\<close>.
\<close>

fun re_end_search :: "string \<Rightarrow> nat option" where
  "re_end_search [] = None"
| "re_end_search (c # cs) =
     (if c = NL \<or> (isspace c \<and> (case cs of [] \<Rightarrow> False | d # _ \<Rightarrow> d \<in> {CHR ''$'', CHR ''&''}))
      then Some 0
      else map_option Suc (re_end_search cs))"

text \<open>\<^verbatim>\<open>re_fc_card = '^\s*[fF][cC]\d'\<close> and \<^verbatim>\<open>re_f_card = '^\s*[fF]\d'\<close>, \<^verbatim>\<open>search\<close>.\<close>

definition re_fc_card_search :: "string \<Rightarrow> bool" where
  "re_fc_card_search s =
     (case dropWhile isspace s of
        f # c # d # _ \<Rightarrow> f \<in> {CHR ''f'', CHR ''F''} \<and> c \<in> {CHR ''c'', CHR ''C''} \<and> isdigit d
      | _ \<Rightarrow> False)"

definition re_f_card_search :: "string \<Rightarrow> bool" where
  "re_f_card_search s =
     (case dropWhile isspace s of
        f # d # _ \<Rightarrow> f \<in> {CHR ''f'', CHR ''F''} \<and> isdigit d
      | _ \<Rightarrow> False)"

text \<open>
  \<^verbatim>\<open>re_cmt = '(^\s{0,5}[cC](\s+.*|\s*)$)'\<close>, \<^verbatim>\<open>bool(re_cmt.findall(l))\<close>.  The leading
  whitespace is at most five characters and is followed by \<^verbatim>\<open>c\<close> or \<^verbatim>\<open>C\<close>; the rest
  \<open>r\<close> is whitespace only, or starts with \<open>j \<ge> 1\<close> whitespace characters followed by a text
  without newline that reaches the end of the string or the newline that ends it.
\<close>

definition dot_star_end :: "string \<Rightarrow> bool" where
  \<comment> \<open>\<^verbatim>\<open>.*$\<close> matches the whole of \<open>m\<close>\<close>
  "dot_star_end m \<longleftrightarrow> NL \<notin> set m \<or> (m \<noteq> [] \<and> last m = NL \<and> NL \<notin> set (butlast m))"

definition cmt_tail :: "string \<Rightarrow> bool" where
  "cmt_tail r \<longleftrightarrow>
     list_all isspace r \<or>
     list_ex (\<lambda>j. dot_star_end (drop j r)) [1 ..< Suc (length (takeWhile isspace r))]"

definition is_commented :: "string \<Rightarrow> bool" where
  "is_commented l =
     (let k = length (takeWhile isspace l) in
      k \<le> 5 \<and>
      (case drop k l of
         [] \<Rightarrow> False
       | c # r \<Rightarrow> c \<in> {CHR ''c'', CHR ''C''} \<and> cmt_tail r))"

text \<open>
  \<^verbatim>\<open>re_rpt = '\d+[rRiI]'\<close>, \<^verbatim>\<open>findall\<close>: the matches from left to right, without
  overlap.
\<close>

function re_rpt_findall :: "string \<Rightarrow> string list" where
  "re_rpt_findall [] = []"
| "re_rpt_findall (c # cs) =
     (let ds = takeWhile isdigit (c # cs); r = dropWhile isdigit (c # cs) in
      if ds \<noteq> [] \<and> r \<noteq> [] \<and> hd r \<in> set ''rRiI''
      then (ds @ [hd r]) # re_rpt_findall (tl r)
      else re_rpt_findall cs)"
  by pat_completeness auto
termination
  by (relation "measure length")
     (auto simp: less_Suc_eq_le intro: le_trans[OF diff_le_self length_dropWhile_le])

text \<open>
  \<^verbatim>\<open>re_ind = '\[.+\]'\<close>, \<^verbatim>\<open>findall\<close>: a match starts at a \<^verbatim>\<open>[\<close> and ends at the last
  \<^verbatim>\<open>]\<close> of the same line that leaves at least one character between them.
\<close>

definition last_bracket :: "string \<Rightarrow> nat option" where
  \<comment> \<open>the greatest index \<open>i \<ge> 1\<close> of a \<^verbatim>\<open>]\<close> in the line that follows the \<^verbatim>\<open>[\<close>\<close>
  "last_bracket cs =
     (let line = takeWhile (\<lambda>x. x \<noteq> NL) cs;
          is = filter (\<lambda>i. line ! i = CHR '']'') [1 ..< length line]
      in if is = [] then None else Some (last is))"

function re_ind_findall :: "string \<Rightarrow> string list" where
  "re_ind_findall [] = []"
| "re_ind_findall (c # cs) =
     (if c = CHR ''[''
      then (case last_bracket cs of
              None \<Rightarrow> re_ind_findall cs
            | Some i \<Rightarrow> (c # take (Suc i) cs) # re_ind_findall (drop (Suc i) cs))
      else re_ind_findall cs)"
  by pat_completeness auto
termination
  by (relation "measure length") auto

text \<open>
  \<^verbatim>\<open>re_int = '\D{0,1}\d+'\<close>, \<^verbatim>\<open>findall\<close>: a run of digits together with the character
  before it, when that character is not a digit and no earlier match has taken it.
\<close>

function re_int_findall :: "string \<Rightarrow> string list" where
  "re_int_findall [] = []"
| "re_int_findall (c # cs) =
     (if isdigit c
      then takeWhile isdigit (c # cs) # re_int_findall (dropWhile isdigit cs)
      else (case cs of
              [] \<Rightarrow> []
            | d # _ \<Rightarrow>
                if isdigit d
                then (c # takeWhile isdigit cs) # re_int_findall (dropWhile isdigit cs)
                else re_int_findall cs))"
  by pat_completeness auto
termination
  by (relation "measure length")
     (auto simp: less_Suc_eq_le intro: length_dropWhile_le le_SucI)

section \<open>parser.py: the card\<close>

definition tp :: string where
  \<comment> \<open>the temporary placeholder \<^verbatim>\<open>tp = '_'\<close> of the splitters\<close>
  "tp = ''_''"

definition fmt_d :: "string \<Rightarrow> string" where
  "fmt_d s = ''{:<'' @ str_nat (length s) @ ''d}''"

definition fmt_s :: "string \<Rightarrow> string" where
  "fmt_s s = ''{}''"

text \<open>
  The attributes of \<^verbatim>\<open>Card\<close> that the parser, the emitter and the rewrite engine read or
  write.  \<^verbatim>\<open>debug\<close> and \<^verbatim>\<open>ctypeName\<close> are only printed, and \<^verbatim>\<open>params\<close> is a projection
  of the values that none of them reads; they are left out.  The attribute
  \<^verbatim>\<open>values\<close> is the field \<open>cvalues\<close>.  The empty string that \<^verbatim>\<open>get_input\<close> stores in
  \<^verbatim>\<open>input\<close> for a comment is the empty list: both are false, and \<^verbatim>\<open>'\n'.join\<close> of
  both is the empty string.  \<open>hidden\<close> lists the items of the dictionary in the order in
  which \<^verbatim>\<open>card\<close> walks them.
\<close>

record card =
  lines :: "string list"
  ctype :: int
  etype :: "int option"
  dtype :: "int option"
  pos :: int
  template :: string
  input :: "string list"
  hidden :: "(char \<times> string list) list"
  cvalues :: "(pyval \<times> int) list"
  original_name :: "pyval option"

definition ebind :: "error + 'a \<Rightarrow> ('a \<Rightarrow> error + 'b) \<Rightarrow> error + 'b" where
  "ebind r f = (case r of Inl e \<Rightarrow> Inl e | Inr x \<Rightarrow> f x)"

text \<open>
  The loop of \<^verbatim>\<open>get_input\<close> over the lines: the input parts and the template parts.
  \<^verbatim>\<open>re_end.search(l)\<close> is \<^verbatim>\<open>None\<close> when the line has no delimiter, and \<^verbatim>\<open>.start()\<close>
  then raises \<^verbatim>\<open>AttributeError\<close>.
\<close>

fun get_input_loop :: "string list \<Rightarrow> error + (string list \<times> string list)" where
  "get_input_loop [] = Inr ([], [])"
| "get_input_loop (l # ls) =
     (if is_commented l
      then ebind (get_input_loop ls) (\<lambda>(inpt, tmpl). Inr (inpt, l # tmpl))
      else (case re_end_search l of
              None \<Rightarrow> Inl AttributeError
            | Some d \<Rightarrow>
                ebind (get_input_loop ls)
                  (\<lambda>(inpt, tmpl). Inr (take d l # inpt, (fmt_s (take d l) @ drop d l) # tmpl))))"

definition get_input :: "card \<Rightarrow> error + card" where
  "get_input c =
     (let mline = concat (lines c) in
      if ctype c \<in> {cID_comment, cID_blankline}
      then Inr (c\<lparr>input := [], template := mline\<rparr>)
      else if re_fc_card_search mline
      then (let i = take 80 mline; t = replace1 i ''{}'' mline
            in Inr (c\<lparr>input := [i], template := t\<rparr>))
      else ebind (get_input_loop (lines c))
             (\<lambda>(inpt, tmpl). Inr (c\<lparr>input := inpt, template := concat tmpl\<rparr>)))"

text \<open>
  \<^verbatim>\<open>Card.__init__\<close>: \<^verbatim>\<open>cID(ctype)\<close> raises \<^verbatim>\<open>ValueError\<close> for a number that is no card
  type, then the attributes are set and \<^verbatim>\<open>get_input\<close> is called.
\<close>

definition Card :: "string list \<Rightarrow> int \<Rightarrow> int \<Rightarrow> error + card" where
  "Card ls ct ps =
     (case tn_name cTypes ct of
        None \<Rightarrow> Inl ValueError
      | Some _ \<Rightarrow>
          get_input \<lparr>lines = ls, ctype = ct, etype = None, dtype = None, pos = ps,
                     template = [], input = [], hidden = [], cvalues = [],
                     original_name = None\<rparr>)"

text \<open>
  \<^verbatim>\<open>_protect_nums\<close>.  The dictionary \<^verbatim>\<open>d\<close> gets its keys in the order \<^verbatim>\<open>~\<close>, \<^verbatim>\<open>!\<close>,
  \<^verbatim>\<open>|\<close>; its items are listed as CPython 2.7 walks a dictionary with these keys
  (\<^verbatim>\<open>!\<close>, \<^verbatim>\<open>|\<close>, \<^verbatim>\<open>~\<close>).  The list of \<^verbatim>\<open>~\<close> is always empty.
\<close>

definition hide :: "string list \<Rightarrow> string \<Rightarrow> string \<Rightarrow> string" where
  \<comment> \<open>\<^verbatim>\<open>for s in sbl: inpt = inpt.replace(s, k, 1)\<close>\<close>
  "hide sbl k inpt = fold (\<lambda>s i. replace1 s k i) sbl inpt"

definition protect_nums :: "card \<Rightarrow> card" where
  "protect_nums c =
     (let inpt = join NL (input c);
          d_tilde = (if ctype c = cID_cell \<and> \<not> contains ''like'' inpt
                     then [(CHR ''~'', [])] else []);
          sbl = re_rpt_findall inpt;
          inpt = hide sbl ''!'' inpt;
          d_rpt = (if sbl \<noteq> [] then [(CHR ''!'', sbl)] else []);
          is_f = (ctype c = cID_data \<and> re_f_card_search inpt);
          sbi = (if is_f then re_ind_findall inpt else []);
          inpt = hide sbi ''|'' inpt;
          d_ind = (if sbi \<noteq> [] then [(CHR ''|'', sbi)] else [])
      in c\<lparr>input := split_on NL inpt, hidden := d_rpt @ d_ind @ d_tilde\<rparr>)"

text \<open>
  \<^verbatim>\<open>Card.card(wrap=False)\<close>: the branch \<^verbatim>\<open>if wrap:\<close> is not taken and not modelled.
\<close>

definition unhide :: "(char \<times> string list) list \<Rightarrow> string \<Rightarrow> string" where
  "unhide h inpt = fold (\<lambda>(k, vl) i. fold (\<lambda>v i. replace1 [k] v i) vl i) h inpt"

definition card_emit :: "card \<Rightarrow> error + string" where
  "card_emit c =
     (if input c = [] then Inr (template c)
      else
        ebind (py_format (join NL (input c)) (map fst (cvalues c))) (\<lambda>inpt.
        let inpt = split_on NL (unhide (hidden c) inpt)
        in py_format (template c) (map VStr inpt)))"

section \<open>parser.py: the splitters\<close>

definition pop0 :: "'a list \<Rightarrow> error + ('a \<times> 'a list)" where
  \<comment> \<open>\<^verbatim>\<open>t.pop(0)\<close>\<close>
  "pop0 t = (case t of [] \<Rightarrow> Inl IndexError | x # r \<Rightarrow> Inr (x, r))"

definition first_is :: "(char \<Rightarrow> bool) \<Rightarrow> string \<Rightarrow> bool" where
  \<comment> \<open>a test on \<^verbatim>\<open>e[0]\<close>; the tokens of \<^verbatim>\<open>split()\<close> and the matches of \<^verbatim>\<open>findall\<close> are not empty\<close>
  "first_is P e = (case e of [] \<Rightarrow> False | c # _ \<Rightarrow> P c)"

definition put_formats :: "string list \<Rightarrow> string \<Rightarrow> string list" where
  \<comment> \<open>\<^verbatim>\<open>for f in fmts: inpt = inpt.replace(tp, f, 1)\<close>, then \<^verbatim>\<open>inpt.split('\n')\<close>\<close>
  "put_formats fmts inpt = split_on NL (fold (\<lambda>f i. replace1 tp f i) fmts inpt)"

text \<open>The state of a splitter: the text, the values and their formats.\<close>

type_synonym split_state = "string \<times> (pyval \<times> int) list \<times> string list"

text \<open>\<^verbatim>\<open>_split_cell\<close>: the loop that separates the geometry from the parameters.\<close>

fun geom_parm :: "string list \<Rightarrow> string list \<times> string list" where
  "geom_parm [] = ([], [])"
| "geom_parm (e # t) =
     (if first_is isalpha e then ([], e # t)
      else (case geom_parm t of (geom, parm) \<Rightarrow> (e # geom, parm)))"

text \<open>The loop over the integers of the geometry.\<close>

fun cell_geom :: "(string \<times> int) list \<Rightarrow> string list \<Rightarrow> split_state \<Rightarrow> error + split_state" where
  "cell_geom its [] st = Inr st"
| "cell_geom its (s0 # rest) (inpt, vals, fmts) =
     (let t = (if first_is (\<lambda>c. c = CHR ''#'') s0 then ''cell'' else ''sur'');
          s = (if first_is isdigit s0 then s0 else tl s0);
          f = fmt_d s;
          inpt = replace1 s tp inpt
      in ebind (py_int s) (\<lambda>i.
         case tn_id its t of
           None \<Rightarrow> Inl ValueError
         | Some k \<Rightarrow> cell_geom its rest (inpt, vals @ [(VInt i, k)], fmts @ [f])))"

text \<open>
  The loop over the pairs of the parameter block.  The message printed for a cell with
  \<^verbatim>\<open>fill\<close> and \<^verbatim>\<open>lat\<close> changes nothing else and is left out.
\<close>

fun cell_parm :: "(string \<times> int) list \<Rightarrow> string list \<Rightarrow> split_state \<Rightarrow> error + split_state" where
  "cell_parm its [] st = Inr st"
| "cell_parm its [s] st = Inl IndexError"
| "cell_parm its (s # vs # t) (inpt, vals, fmts) =
     (let vt = (if contains ''fill'' (lower s) then ''fill'' else s) in
      ebind (if vt = ''fill'' \<or> vt = ''u''
             then ebind (py_int vs) (\<lambda>i. Inr (VInt i, fmt_d vs))
             else Inr (VStr vs, fmt_s vs)) (\<lambda>(vv, vf).
      let inpt = replace1 vs tp inpt in
      case tn_id its vt of
        None \<Rightarrow> Inl ValueError
      | Some k \<Rightarrow> cell_parm its t (inpt, vals @ [(vv, k)], fmts @ [vf])))"

text \<open>
  \<^verbatim>\<open>_split_cell\<close>.  In the branch for \<^verbatim>\<open>like\<close> the source formats its warning with
  \<^verbatim>\<open>self.pos\<close>, and \<^verbatim>\<open>self\<close> is not defined in this function: \<^verbatim>\<open>NameError\<close>.
\<close>

definition split_cell ::
  "(string \<times> int) list \<Rightarrow> string list \<Rightarrow> error + (string list \<times> (pyval \<times> int) list)" where
  "split_cell its inp =
     (let inpt = join NL inp in
      if contains ''like '' (lower inpt) then Inl NameError
      else
        ebind (pop0 (split_ws inpt)) (\<lambda>(js, t).
        let inpt = replace1 js tp inpt in
        ebind (py_int js) (\<lambda>j.
        ebind (pop0 t) (\<lambda>(ms, t).
        let inpt = replace1 ms tp inpt in
        ebind (py_int ms) (\<lambda>m.
        let vals = [(VInt j, eID_cell), (VInt m, eID_mat)];
            fmts = [fmt_d js, fmt_d ms] in
        ebind (if m \<noteq> 0
               then ebind (pop0 t) (\<lambda>(ds, t).
                      Inr (t, replace1 ds tp inpt, vals @ [(VStr ds, eID_den)], fmts @ [fmt_s ds]))
               else Inr (t, inpt, vals, fmts)) (\<lambda>(t, st).
        case geom_parm t of (geom, parm) \<Rightarrow>
        ebind (cell_geom its (re_int_findall (join (CHR '' '') geom)) st) (\<lambda>st.
        ebind (cell_parm its
                 (split_ws (replace_char (CHR ''='') '' '' (join (CHR '' '') parm))) st)
          (\<lambda>(inpt, vals, fmts). Inr (put_formats fmts inpt, vals)))))))))"

text \<open>\<^verbatim>\<open>_split_surface\<close>.\<close>

definition split_surface :: "string list \<Rightarrow> error + (string list \<times> (pyval \<times> int) list)" where
  "split_surface inp =
     (let inpt = join NL inp in
      ebind (pop0 (split_ws inpt)) (\<lambda>(js0, t).
      let js = (if first_is isdigit js0 then js0 else tl js0);
          inpt = replace1 js tp inpt in
      ebind (py_int js) (\<lambda>j.
      ebind (pop0 t) (\<lambda>(ns0, t).
        if first_is isdigit ns0
        then (let inpt = replace1 ns0 tp inpt in
              ebind (py_int ns0) (\<lambda>n.
                Inr (put_formats [fmt_d js, fmt_d ns0] inpt,
                     [(VInt j, eID_sur), (VInt n, eID_tr)])))
        else if first_is (\<lambda>c. c = CHR ''-'') ns0
        then (let ns = tl ns0; inpt = replace1 ns tp inpt in
              ebind (py_int ns) (\<lambda>n.
                Inr (put_formats [fmt_d js, fmt_d ns] inpt,
                     [(VInt j, eID_sur), (VInt n, eID_sur)])))
        else if first_is isalpha ns0
        then Inr (put_formats [fmt_d js] inpt, [(VInt j, eID_sur)])
        else Inl ValueError))))"

text \<open>\<^verbatim>\<open>_get_int\<close>.\<close>

fun get_int_go :: "string \<Rightarrow> string \<Rightarrow> string" where
  "get_int_go r [] = r"
| "get_int_go r (c # cs) =
     (if r \<noteq> [] \<and> isalpha c then r
      else if isdigit c then get_int_go (r @ [c]) cs
      else get_int_go r cs)"

definition get_int :: "string \<Rightarrow> string" where
  "get_int s = get_int_go [] s"

text \<open>
  \<^verbatim>\<open>s.find\<close> and \<^verbatim>\<open>s.rfind\<close> with \<^verbatim>\<open>-1\<close> for no occurrence, and the slice
  \<^verbatim>\<open>s[i:j]\<close>, where a negative index counts from the end.
\<close>

definition py_find :: "string \<Rightarrow> string \<Rightarrow> int" where
  "py_find sub s = (case find_sub sub s of None \<Rightarrow> -1 | Some i \<Rightarrow> int i)"

definition py_rfind :: "string \<Rightarrow> string \<Rightarrow> int" where
  "py_rfind sub s =
     (case find_sub (rev sub) (rev s) of
        None \<Rightarrow> -1
      | Some i \<Rightarrow> int (length s) - int (length sub) - int i)"

definition slice_index :: "nat \<Rightarrow> int \<Rightarrow> nat" where
  "slice_index n i = (if i < 0 then nat (max 0 (i + int n)) else min (nat i) n)"

definition py_slice :: "string \<Rightarrow> int \<Rightarrow> int \<Rightarrow> string" where
  "py_slice s i j =
     (let a = slice_index (length s) i; b = slice_index (length s) j
      in take (b - a) (drop a s))"

text \<open>The loop of \<^verbatim>\<open>_split_data\<close> over the integers of a tally card.\<close>

fun tally_loop :: "bool \<Rightarrow> int \<Rightarrow> string list \<Rightarrow> split_state \<Rightarrow> error + split_state" where
  "tally_loop hasu typ [] st = Inr st"
| "tally_loop hasu typ (s # rest) (inpt, vals, fmts) =
     (let ss = tl s;
          part = filter (\<lambda>c. c \<noteq> CHR '' '') (py_slice inpt (py_rfind tp inpt) (py_find ss inpt));
          tpe = (if hasu \<and> lower (drop (length part - 2) part) = ''u='' then eID_u else typ);
          inpt = replace1 ss tp inpt
      in ebind (py_int ss) (\<lambda>i.
         tally_loop hasu typ rest (inpt, vals @ [(VInt i, tpe)], fmts @ [fmt_d ss])))"

text \<open>
  \<^verbatim>\<open>_split_data\<close>.  A card that starts with \<^verbatim>\<open>m\<close> whose second character is neither a
  digit nor \<^verbatim>\<open>t\<close> nor \<^verbatim>\<open>p\<close> leaves \<^verbatim>\<open>dtype\<close> without a value, and the \<^verbatim>\<open>return\<close>
  raises \<^verbatim>\<open>UnboundLocalError\<close>.
\<close>

definition split_data ::
  "string list \<Rightarrow> error + (string list \<times> (pyval \<times> int) list \<times> int)" where
  "split_data inp =
     (let inpt = join NL inp in
      case split_ws inpt of
        [] \<Rightarrow> Inl IndexError
      | t0 # _ \<Rightarrow>
          if contains ''tr'' (lower (take 3 t0))
          then (let ns = get_int t0; inpt = replace1 ns tp inpt in
                ebind (py_int ns) (\<lambda>n.
                  Inr (put_formats [fmt_d ns] inpt, [(VInt n, eID_tr)], dID_tr)))
          else if first_is (\<lambda>c. lower_char c = CHR ''m'') t0 \<and> \<not> contains ''mode'' (lower t0)
          then (let ms = get_int t0; inpt = replace1 ms tp inpt in
                ebind (py_int ms) (\<lambda>m.
                  case tl t0 of
                    [] \<Rightarrow> Inl IndexError
                  | c1 # _ \<Rightarrow>
                      ebind (if isdigit c1 then Inr dID_m
                             else if lower_char c1 = CHR ''t'' then Inr dID_mt
                             else if lower_char c1 = CHR ''p'' then Inr dID_mpn
                             else Inl UnboundLocalError) (\<lambda>dt.
                      Inr (put_formats [fmt_d ms] inpt, [(VInt m, eID_mat)], dt))))
          else if first_is (\<lambda>c. lower_char c = CHR ''f'') t0
          then (case tl t0 of
                  [] \<Rightarrow> Inl IndexError
                | c1 # _ \<Rightarrow>
                    if isdigit c1
                    then (let ns = get_int t0; inpt = replace1 ns tp inpt in
                          ebind (py_int ns) (\<lambda>n.
                          let nv = digit_val (last ns);
                              typ = (if nv \<in> {1, 2} then eID_sur
                                     else if nv \<in> {4, 6, 7, 8} then eID_cell else 0);
                              st = (inpt, [(VInt n, eID_tal)], [fmt_d ns])
                          in ebind (if typ \<noteq> 0
                                    then tally_loop
                                           (contains ''u'' (lower inpt) \<and> contains ''='' (lower inpt))
                                           typ (re_int_findall inpt) st
                                    else Inr st)
                               (\<lambda>(inpt, vals, fmts). Inr (put_formats fmts inpt, vals, dID_f))))
                    else Inr (put_formats [] inpt, [], 0))
          else Inr (put_formats [] inpt, [], 0))"

section \<open>parser.py: the values of a card\<close>

definition get_etype :: "card \<Rightarrow> card" where
  "get_etype c =
     (if ctype c = cID_cell then c\<lparr>etype := Some eID_cell\<rparr>
      else if ctype c = cID_surface then c\<lparr>etype := Some eID_sur\<rparr>
      else if ctype c = cID_data then
        (if dtype c = Some dID_m then c\<lparr>etype := Some eID_mat\<rparr>
         else if dtype c = Some dID_f then c\<lparr>etype := Some eID_tal\<rparr>
         else if dtype c = Some dID_tr then c\<lparr>etype := Some eID_tr\<rparr>
         else c)
      else c)"

definition first_value :: "(pyval \<times> int) list \<Rightarrow> error + pyval" where
  \<comment> \<open>\<^verbatim>\<open>vt[0][0]\<close>\<close>
  "first_value vt = (case vt of [] \<Rightarrow> Inl IndexError | v # _ \<Rightarrow> Inr (fst v))"

definition get_values :: "(string \<times> int) list \<Rightarrow> card \<Rightarrow> error + card" where
  "get_values its c0 =
     (let c = protect_nums c0 in
      ebind (if ctype c = cID_cell
             then ebind (split_cell its (input c)) (\<lambda>(inpt, vt).
                  ebind (first_value vt) (\<lambda>n.
                    Inr (c\<lparr>original_name := Some n\<rparr>, inpt, vt)))
             else if ctype c = cID_surface
             then ebind (split_surface (input c)) (\<lambda>(inpt, vt).
                  ebind (first_value vt) (\<lambda>n.
                    Inr (c\<lparr>original_name := Some n\<rparr>, inpt, vt)))
             else if ctype c = cID_data
             then ebind (split_data (input c)) (\<lambda>(inpt, vt, dt).
                    Inr (c\<lparr>dtype := Some dt\<rparr>, inpt, vt))
             else Inr (c, input c, []))
        (\<lambda>(c, inpt, vt). Inr (get_etype (c\<lparr>input := inpt, cvalues := vt\<rparr>))))"

section \<open>parser.py: the lexer\<close>

definition is_fc_card :: "string \<Rightarrow> bool" where
  "is_fc_card l \<longleftrightarrow> take 2 (lower (lstrip l)) = ''fc''"

definition is_blankline :: "string \<Rightarrow> bool" where
  "is_blankline l \<longleftrightarrow> strip l = []"

text \<open>
  A generator is the list of the values it yields and the exception that ends it, if one
  does.  \<^verbatim>\<open>yield _yield(card, ct, ln)\<close> builds the card first, so the exception of
  \<^verbatim>\<open>Card\<close> ends the generator.  A \<^verbatim>\<open>StopIteration\<close> of \<^verbatim>\<open>f.next()\<close> inside the generator
  ends it like a \<^verbatim>\<open>return\<close>.
\<close>

type_synonym 'a gen = "'a list \<times> error option"

definition gyield :: "error + 'a \<Rightarrow> 'a gen \<Rightarrow> 'a gen" where
  "gyield r g = (case r of Inl e \<Rightarrow> ([], Some e) | Inr x \<Rightarrow> (x # fst g, snd g))"

definition gyield_if :: "bool \<Rightarrow> error + 'a \<Rightarrow> 'a gen \<Rightarrow> 'a gen" where
  "gyield_if b r g = (if b then gyield r g else g)"

definition has_amp :: "string \<Rightarrow> bool" where
  \<comment> \<open>\<^verbatim>\<open>l.find('&', 0, 81) > -1\<close>\<close>
  "has_amp l \<longleftrightarrow> CHR ''&'' \<in> set (take 81 l)"

definition int_len :: "'a list \<Rightarrow> int" where
  "int_len xs = int (length xs)"

text \<open>
  The loop \<^verbatim>\<open>for l in f\<close> with its variables \<^verbatim>\<open>ncid\<close>, \<^verbatim>\<open>cf\<close>, \<^verbatim>\<open>card\<close>, \<^verbatim>\<open>cmnt\<close> and
  \<^verbatim>\<open>cln\<close>, and the two \<^verbatim>\<open>yield\<close>s after it.
\<close>

fun lex_loop ::
  "int \<Rightarrow> bool \<Rightarrow> string list \<Rightarrow> string list \<Rightarrow> int \<Rightarrow> string list \<Rightarrow> card gen" where
  "lex_loop ncid cf crd cmnt cln [] =
     gyield_if (crd \<noteq> []) (Card crd ncid (cln - int_len crd - int_len cmnt))
       (gyield_if (cmnt \<noteq> []) (Card cmnt cID_comment (cln - int_len cmnt)) ([], None))"
| "lex_loop ncid cf crd cmnt cln0 (l # ls) =
     (let cln = cln0 + 1 in
      if is_blankline l then
        gyield_if (crd \<noteq> []) (Card crd ncid (cln - int_len crd - int_len cmnt))
          (gyield_if (cmnt \<noteq> []) (Card cmnt cID_comment (cln - int_len cmnt))
            (gyield (Card [l] cID_blankline cln)
              (lex_loop (ncid + 1) cf [] [] cln ls)))
      else if take 5 l = ''     '' \<or> cf then
        lex_loop ncid (has_amp l) (crd @ cmnt @ [l]) [] cln ls
      else if is_commented l then
        lex_loop ncid cf crd (cmnt @ [l]) cln ls
      else
        gyield_if (crd \<noteq> []) (Card crd ncid (cln - int_len crd - int_len cmnt))
          (gyield_if (cmnt \<noteq> []) (Card cmnt cID_comment (cln - int_len cmnt))
            (lex_loop ncid (\<not> is_fc_card l \<and> has_amp l) [l] [] cln ls)))"

text \<open>The \<^verbatim>\<open>while\<close> loop that reads the message block.\<close>

fun message_block ::
  "string list \<Rightarrow> string \<Rightarrow> string list \<Rightarrow> int
     \<Rightarrow> (string list \<times> string \<times> string list \<times> int) option" where
  "message_block res l [] cln = (if is_blankline l then Some (res, l, [], cln) else None)"
| "message_block res l (l' # rest) cln =
     (if is_blankline l then Some (res, l, l' # rest, cln)
      else message_block (res @ [l']) l' rest (cln + 1))"

text \<open>
  \<^verbatim>\<open>get_cards\<close>, on the lines of the file.  \<^verbatim>\<open>_check_bad_chars\<close> only prints.  The first
  word of the first line is \<^verbatim>\<open>l.lower().split()[0]\<close>: \<^verbatim>\<open>IndexError\<close> for a line of
  whitespace.
\<close>

definition title_and_rest :: "string \<Rightarrow> int \<Rightarrow> string list \<Rightarrow> card gen" where
  "title_and_rest l cln rest =
     gyield (Card [l] cID_title cln) (lex_loop (cID_title + 1) False [] [] cln rest)"

definition get_cards :: "string list \<Rightarrow> card gen" where
  "get_cards f =
     (case f of
        [] \<Rightarrow> ([], None)
      | l # rest \<Rightarrow>
          (case split_ws (lower l) of
             [] \<Rightarrow> ([], Some IndexError)
           | kw # _ \<Rightarrow>
               if kw = ''message:'' then
                 (case message_block [l] l rest 1 of
                    None \<Rightarrow> ([], None)
                  | Some (res, lb, rest', cln) \<Rightarrow>
                      gyield (Card res cID_message (cln - 1))
                        (gyield (Card [lb] cID_blankline cln)
                          (case rest' of
                             [] \<Rightarrow> ([], None)
                           | lt # rest'' \<Rightarrow> title_and_rest lt (cln + 1) rest'')))
               else if kw = ''continue'' then lex_loop cID_data False [] [] 1 rest
               else title_and_rest l 1 rest))"

section \<open>numbering.py: the rules and their application\<close>

text \<open>
  A range of a rule is what \<^verbatim>\<open>_read_range\<close> returns for a map line with a range: an
  integer, or the list of the integers around \<^verbatim>\<open>--\<close>.  The place of a line number is
  taken by the string \<^verbatim>\<open>'-'\<close> in the default entries that \<^verbatim>\<open>read_map_file\<close> starts with.
\<close>

datatype rng = RInt int | RList "int list"

datatype lineref = NoLine | Line nat

text \<open>A changing rule is a dictionary from kinds to new values, as a list of its items.\<close>

type_synonym rule = "(int \<times> string) list"

type_synonym rename_table = "(int \<times> ((lineref \<times> int) \<times> (nat \<times> rng \<times> int) list)) list"

type_synonym change_table = "(int \<times> ((lineref \<times> rule) \<times> (nat \<times> rng \<times> rule) list)) list"

text \<open>What the engine prints or hands to \<^verbatim>\<open>warnings.warn\<close>.\<close>

datatype message =
  NonInjective int pyval pyval pyval
  | VoidToMaterial pyval pyval
  | MaterialToVoid pyval pyval

text \<open>
  The attributes of \<^verbatim>\<open>LikeFunction\<close>: the renaming rules \<^verbatim>\<open>__p\<close>, the changing rules
  \<^verbatim>\<open>__c\<close>, the flag \<^verbatim>\<open>__lf\<close> and the log \<^verbatim>\<open>__ld\<close>, a dictionary of dictionaries, here
  keyed by the pair of the kind and the new number.
\<close>

record likefunction =
  lf_p :: rename_table
  lf_c :: change_table
  lf_lf :: bool
  lf_ld :: "((int \<times> pyval) \<times> pyval) list"

text \<open>
  \<^verbatim>\<open>rng[0] <= n <= rng[1]\<close>, and \<^verbatim>\<open>n == rng\<close> when that raises (an integer has no items,
  a list may be too short).  In Python 2 an integer is less than every string, so a
  string is in no range.
\<close>

definition in_range :: "rng \<Rightarrow> pyval \<Rightarrow> bool" where
  "in_range r n =
     (case r of
        RList (a # b # _) \<Rightarrow> (case n of VInt i \<Rightarrow> a \<le> i \<and> i \<le> b | VStr _ \<Rightarrow> False)
      | RList _ \<Rightarrow> False
      | RInt k \<Rightarrow> n = VInt k)"

definition py_add :: "pyval \<Rightarrow> int \<Rightarrow> error + pyval" where
  \<comment> \<open>\<^verbatim>\<open>n + inc\<close>\<close>
  "py_add n inc = (case n of VInt i \<Rightarrow> Inr (VInt (i + inc)) | VStr _ \<Rightarrow> Inl TypeError)"

text \<open>The \<^verbatim>\<open>for ... else\<close> of \<^verbatim>\<open>rename\<close>: the first range that holds \<open>n\<close>, else the default.\<close>

fun rename_walk :: "(nat \<times> rng \<times> int) list \<Rightarrow> int \<Rightarrow> pyval \<Rightarrow> error + pyval" where
  "rename_walk [] dinc n = py_add n dinc"
| "rename_walk ((lno, r, inc) # lst) dinc n =
     (if in_range r n then py_add n inc else rename_walk lst dinc n)"

text \<open>
  The first part of \<^verbatim>\<open>rename\<close>, which computes \<^verbatim>\<open>nnew\<close>.  \<^verbatim>\<open>tname = eID(t)\<close> raises
  \<^verbatim>\<open>ValueError\<close> for a key of the table that is no kind.
\<close>

definition rename_new :: "(string \<times> int) list \<Rightarrow> rename_table \<Rightarrow> pyval \<Rightarrow> int \<Rightarrow> error + pyval" where
  "rename_new its p n t =
     (case map_of p t of
        None \<Rightarrow> Inr n
      | Some ((dln, dinc), lst) \<Rightarrow>
          (case tn_name its t of
             None \<Rightarrow> Inl ValueError
           | Some tname \<Rightarrow> rename_walk lst dinc n))"

text \<open>
  The second part: the log, when it is kept.  The warning of a mapping that is not
  injective is formatted with \<^verbatim>\<open>eID(t)\<close>, which raises \<^verbatim>\<open>ValueError\<close> for a \<open>t\<close> that is
  no kind.
\<close>

definition rename_log ::
  "(string \<times> int) list \<Rightarrow> likefunction \<Rightarrow> pyval \<Rightarrow> int \<Rightarrow> pyval
     \<Rightarrow> error + (message list \<times> likefunction)" where
  "rename_log its self n t nnew =
     (if lf_lf self then
        (case map_of (lf_ld self) (t, nnew) of
           Some old \<Rightarrow>
             (if old \<noteq> n
              then (case tn_name its t of
                      None \<Rightarrow> Inl ValueError
                    | Some _ \<Rightarrow> Inr ([NonInjective t old n nnew], self))
              else Inr ([], self))
         | None \<Rightarrow> Inr ([], self\<lparr>lf_ld := lf_ld self @ [((t, nnew), n)]\<rparr>))
      else Inr ([], self))"

text \<open>The third part: the check of the void material, which prints and changes nothing.\<close>

definition void_check :: "pyval \<Rightarrow> int \<Rightarrow> pyval \<Rightarrow> message list" where
  "void_check n t nnew =
     (if t = eID_mat then
        (if n = VInt 0 \<and> nnew \<noteq> VInt 0 then [VoidToMaterial n nnew] else []) @
        (if n \<noteq> VInt 0 \<and> nnew = VInt 0 then [MaterialToVoid n nnew] else [])
      else [])"

definition rename ::
  "(string \<times> int) list \<Rightarrow> likefunction \<Rightarrow> pyval \<Rightarrow> int
     \<Rightarrow> error + (pyval \<times> message list \<times> likefunction)" where
  "rename its self n t =
     ebind (rename_new its (lf_p self) n t) (\<lambda>nnew.
     ebind (rename_log its self n t nnew) (\<lambda>(w, self').
       Inr (nnew, w @ void_check n t nnew, self')))"

text \<open>
  \<^verbatim>\<open>Card.apply_renumbering(f)\<close> (parser.py) with the callable \<^verbatim>\<open>f\<close> that the class
  documents, \<^verbatim>\<open>n_new = f(n_old, t)\<close>: the bound method \<^verbatim>\<open>rename\<close>.  The messages are
  collected in the order in which they are printed.
\<close>

fun renumber_loop ::
  "(string \<times> int) list \<Rightarrow> likefunction \<Rightarrow> (pyval \<times> int) list
     \<Rightarrow> error + ((pyval \<times> int) list \<times> message list \<times> likefunction)" where
  "renumber_loop its self [] = Inr ([], [], self)"
| "renumber_loop its self ((v, t) # vs) =
     (let t1 = (if t = eID_fill then eID_u else t) in
      ebind (rename its self v t1) (\<lambda>(v', w, self').
      ebind (renumber_loop its self' vs) (\<lambda>(vs', w', self'').
        Inr ((v', t) # vs', w @ w', self''))))"

definition apply_renumbering ::
  "(string \<times> int) list \<Rightarrow> likefunction \<Rightarrow> card
     \<Rightarrow> error + (card \<times> message list \<times> likefunction)" where
  "apply_renumbering its self c =
     ebind (renumber_loop its self (cvalues c)) (\<lambda>(newvals, w, self').
       Inr (c\<lparr>cvalues := newvals\<rparr>, w, self'))"

text \<open>
  \<^verbatim>\<open>change\<close>.  The inner loop takes the new value of each kind with
  \<^verbatim>\<open>rule.pop(t, None)\<close>, which removes the key from the rule; the rule is an object of the
  table, so the table is returned with the rule as the loop leaves it.  \<^verbatim>\<open>eID(t)\<close> in the
  debug line raises \<^verbatim>\<open>ValueError\<close> for a kind that is none.
\<close>

fun change_values ::
  "(string \<times> int) list \<Rightarrow> rule \<Rightarrow> (pyval \<times> int) list \<Rightarrow> error + ((pyval \<times> int) list \<times> rule)" where
  "change_values its rule [] = Inr ([], rule)"
| "change_values its rule ((v, t) # vs) =
     (let newv = map_of rule t; rule' = AList.delete t rule in
      case tn_name its t of
        None \<Rightarrow> Inl ValueError
      | Some _ \<Rightarrow>
          ebind (change_values its rule' vs) (\<lambda>(vs', rule'').
            Inr ((case newv of Some s \<Rightarrow> (VStr s, t) | None \<Rightarrow> (v, t)) # vs', rule'')))"

text \<open>
  The loop over \<^verbatim>\<open>lst + [(dnl, card.original_name, drule)]\<close>: the entries of the list
  already passed are \<open>seen\<close>; the last entry, the default rule, always holds the name.
\<close>

fun change_walk ::
  "(string \<times> int) list \<Rightarrow> pyval \<Rightarrow> (pyval \<times> int) list
     \<Rightarrow> (nat \<times> rng \<times> rule) list \<Rightarrow> (nat \<times> rng \<times> rule) list \<Rightarrow> lineref \<times> rule
     \<Rightarrow> error + ((pyval \<times> int) list \<times> ((lineref \<times> rule) \<times> (nat \<times> rng \<times> rule) list))" where
  "change_walk its name vals seen [] (dnl, drule) =
     ebind (change_values its drule vals) (\<lambda>(vals', drule').
       Inr (vals', ((dnl, drule'), seen)))"
| "change_walk its name vals seen ((lno, r, rule) # lst) d =
     (if in_range r name
      then ebind (change_values its rule vals) (\<lambda>(vals', rule').
             Inr (vals', (d, seen @ (lno, r, rule') # lst)))
      else change_walk its name vals (seen @ [(lno, r, rule)]) lst d)"

definition change ::
  "(string \<times> int) list \<Rightarrow> likefunction \<Rightarrow> card \<Rightarrow> error + (card \<times> likefunction)" where
  "change its self c =
     (case original_name c of
        None \<Rightarrow> Inr (c, self)
      | Some name \<Rightarrow>
          (case etype c of
             None \<Rightarrow> Inr (c, self)
           | Some et \<Rightarrow>
               (case map_of (lf_c self) et of
                  None \<Rightarrow> Inr (c, self)
                | Some (d, lst) \<Rightarrow>
                    ebind (change_walk its name (cvalues c) [] lst d) (\<lambda>(vals', entry').
                      Inr (c\<lparr>cvalues := vals'\<rparr>,
                           self\<lparr>lf_c := AList.update et entry' (lf_c self)\<rparr>)))))"

section \<open>numbering.py: the map file\<close>

text \<open>
  A rule of a map line: a renaming rule \<^verbatim>\<open>{sign: val}\<close> with the sign \<^verbatim>\<open>'+'\<close>,
  \<^verbatim>\<open>'-'\<close> or \<^verbatim>\<open>''\<close>, or a changing rule.
\<close>

datatype maprule = RenameRule string int | ChangeRule rule

definition read_range :: "string \<Rightarrow> error + rng option" where
  "read_range s =
     (if strip s = [] then Inr None
      else if contains ''--'' s
      then ebind (fold (\<lambda>x r. ebind r (\<lambda>xs. ebind (py_int x) (\<lambda>i. Inr (xs @ [i]))))
                    (split_str ''--'' [] s) (Inr []))
             (\<lambda>xs. Inr (Some (RList xs)))
      else ebind (py_int s) (\<lambda>i. Inr (Some (RInt i))))"

definition read_rename_rule :: "string \<Rightarrow> error + maprule" where
  "read_rename_rule s =
     (case s of
        [] \<Rightarrow> Inl IndexError
      | c # _ \<Rightarrow>
          (let sign = (if c \<in> {CHR ''+'', CHR ''-''} then [c] else [])
           in ebind (py_int s) (\<lambda>val. Inr (RenameRule sign val))))"

text \<open>
  \<^verbatim>\<open>_read_change_rule\<close>: \<^verbatim>\<open>res[pt] = v\<close> stores under the key or replaces its value.
\<close>

fun read_change_rule :: "(string \<times> int) list \<Rightarrow> string list \<Rightarrow> rule \<Rightarrow> rule" where
  "read_change_rule its [] res = res"
| "read_change_rule its [t] res = res"
| "read_change_rule its (t # v # rest) res =
     (case tn_id its t of
        None \<Rightarrow> res
      | Some pt \<Rightarrow> if pt \<noteq> 0 then read_change_rule its rest (AList.update pt v res) else res)"

text \<open>
  \<^verbatim>\<open>_read_map_line\<close>: \<open>None\<close> stands for the result \<^verbatim>\<open>(0, None, None)\<close> of a line that is
  a comment.
\<close>

definition read_map_line ::
  "(string \<times> int) list \<Rightarrow> string \<Rightarrow> error + (int \<times> rng option \<times> maprule) option" where
  "read_map_line its ll =
     (let l = lstrip (lower ll) in
      case find_sub '':'' l of
        None \<Rightarrow> Inr None
      | Some i \<Rightarrow>
          (let lp = take i l; rp = drop (Suc i) l in
           ebind (pop0 (split_ws lp)) (\<lambda>(w, lpt).
           case tn_id its w of
             None \<Rightarrow> Inr None
           | Some et \<Rightarrow>
               if et = 0 then Inr None
               else
                 ebind (read_range (join (CHR '' '') lpt)) (\<lambda>rg.
                 let rpl = split_ws (replace_char (CHR ''='') '' '' rp) in
                 case rpl of
                   [] \<Rightarrow> Inl IndexError
                 | r0 # _ \<Rightarrow>
                     (case py_int r0 of
                        Inr i \<Rightarrow> ebind (read_rename_rule r0) (\<lambda>rule. Inr (Some (et, rg, rule)))
                      | Inl _ \<Rightarrow>
                          (let rule = read_change_rule its rpl [] in
                           if rule \<noteq> [] then Inr (Some (et, rg, ChangeRule rule))
                           else Inr None))))))"

text \<open>
  The body of the loop of \<^verbatim>\<open>read_map_file\<close> for one line.  The test \<^verbatim>\<open>k0 in '+-'\<close> has
  the first key of the rule on its left: a sign for a renaming rule (the empty string is
  in every string), an integer for a changing rule, and for an integer the operator
  raises \<^verbatim>\<open>TypeError\<close>.  The branch of the source for a changing rule is therefore never
  taken.  \<^verbatim>\<open>drename[t]\<close> raises \<^verbatim>\<open>KeyError\<close> for the kind of a parameter.  A range that
  is one integer is an \<^verbatim>\<open>int\<close> or, beyond \<^verbatim>\<open>sys.maxint\<close>, a \<^verbatim>\<open>long\<close>.
\<close>

definition range_start :: "rng \<Rightarrow> error + int" where
  \<comment> \<open>\<^verbatim>\<open>n1 = rng if isinstance(rng, int) else rng[0]\<close>; a \<^verbatim>\<open>long\<close> has no items\<close>
  "range_start r =
     (case r of
        RInt n1 \<Rightarrow> if is_py_int n1 then Inr n1 else Inl TypeError
      | RList [] \<Rightarrow> Inl IndexError
      | RList (x # _) \<Rightarrow> Inr x)"

definition add_rename ::
  "rename_table \<Rightarrow> nat \<Rightarrow> int \<Rightarrow> rng option \<Rightarrow> string \<Rightarrow> int \<Rightarrow> error + rename_table" where
  "add_rename drename lno t rg k0 v0 =
     ebind (case rg of
              None \<Rightarrow> Inr v0
            | Some r \<Rightarrow>
                if k0 = ''+'' then Inr v0
                else ebind (range_start r) (\<lambda>n1. Inr (v0 - n1))) (\<lambda>inc.
       case map_of drename t of
         None \<Rightarrow> Inl KeyError
       | Some (d, lst) \<Rightarrow>
           (case rg of
              None \<Rightarrow> Inr (AList.update t ((Line lno, inc), lst) drename)
            | Some r \<Rightarrow> Inr (AList.update t (d, lst @ [(lno, r, inc)]) drename)))"

fun read_map_lines ::
  "(string \<times> int) list \<Rightarrow> nat \<Rightarrow> string list \<Rightarrow> rename_table \<times> change_table
     \<Rightarrow> error + (rename_table \<times> change_table)" where
  "read_map_lines its lno0 [] tabs = Inr tabs"
| "read_map_lines its lno0 (l # ls) (drename, dchange) =
     (let lno = Suc lno0; ll = lstrip (lower l) in
      ebind (read_map_line its ll) (\<lambda>r.
        case r of
          None \<Rightarrow> read_map_lines its lno ls (drename, dchange)
        | Some (t, rg, RenameRule k0 v0) \<Rightarrow>
            ebind (add_rename drename lno t rg k0 v0) (\<lambda>drename'.
              read_map_lines its lno ls (drename', dchange))
        | Some (t, rg, ChangeRule rule) \<Rightarrow> Inl TypeError))"

definition read_map_file ::
  "(string \<times> int) list \<Rightarrow> string list \<Rightarrow> error + (rename_table \<times> change_table)" where
  "read_map_file its f =
     read_map_lines its 0 f
       (map (\<lambda>k. (k, ((NoLine, 0), []))) eID_values,
        map (\<lambda>k. (k, ((NoLine, []), []))) eID_values)"

text \<open>\<^verbatim>\<open>LikeFunction(pdict, cdict, log)\<close>.\<close>

definition LikeFunction :: "rename_table \<Rightarrow> change_table \<Rightarrow> bool \<Rightarrow> likefunction" where
  "LikeFunction pdict cdict logf = \<lparr>lf_p = pdict, lf_c = cdict, lf_lf = logf, lf_ld = []\<rparr>"

section \<open>numbering.py: summary of a set of numbers by ranges\<close>










section \<open>Properties of the range summary\<close>


















section \<open>The passes of the driver\<close>

text \<open>
  Modelled from the spec: the driver (\<^verbatim>\<open>main.py\<close>) is not among the sources.  Section 1 of
  the spec gives its contract with the core: compile the map file, take a card of the
  lexer, call the rewrite operations on it, write the emitted card.  \<open>rename_pass\<close> does
  this for one card of a given kind with the renaming, \<open>change_card\<close> with the changing
  of parameters; both emit without wrapping.
\<close>

definition rename_card ::
  "(string \<times> int) list \<Rightarrow> likefunction \<Rightarrow> string list \<Rightarrow> int
     \<Rightarrow> error + (string \<times> message list \<times> likefunction)" where
  "rename_card its self ls ct =
     ebind (Card ls ct 1) (\<lambda>cd.
     ebind (get_values its cd) (\<lambda>cd.
     ebind (apply_renumbering its self cd) (\<lambda>(cd, w, self').
     ebind (card_emit cd) (\<lambda>s. Inr (s, w, self')))))"

definition rename_pass ::
  "(string \<times> int) list \<Rightarrow> string list \<Rightarrow> string list \<Rightarrow> int
     \<Rightarrow> error + (string \<times> message list)" where
  "rename_pass its mapfile ls ct =
     ebind (read_map_file its mapfile) (\<lambda>(drename, dchange).
     ebind (rename_card its (LikeFunction drename dchange False) ls ct) (\<lambda>(s, w, self').
       Inr (s, w)))"

definition change_card ::
  "(string \<times> int) list \<Rightarrow> likefunction \<Rightarrow> string list \<Rightarrow> int
     \<Rightarrow> error + (string \<times> likefunction)" where
  "change_card its self ls ct =
     ebind (Card ls ct 1) (\<lambda>cd.
     ebind (get_values its cd) (\<lambda>cd.
     ebind (change its self cd) (\<lambda>(cd, self').
     ebind (card_emit cd) (\<lambda>s. Inr (s, self')))))"

section \<open>Evaluation on concrete cards and map files\<close>

lemmas prim_defs =
  split_ws_def isspace_def isdigit_def isalpha_def upper_letters_def lower_letters_def
  lower_def lower_char_def lstrip_def rstrip_def strip_def split_on_def contains_def replace1_def
  replace_char_def digit_val_def digits_val_def py_int_def digit_char_def str_int_def py_str_def
  ljust_def render_field_def emit_def py_format_def NL_def str_nat.simps replicate_numeral_eval

lemmas parser_defs =
  re_fc_card_search_def re_f_card_search_def dot_star_end_def cmt_tail_def
  is_commented_def last_bracket_def tp_def fmt_d_def fmt_s_def ebind_def get_input_def Card_def
  hide_def protect_nums_def unhide_def card_emit_def pop0_def first_is_def put_formats_def
  split_cell_def split_surface_def get_int_def py_find_def py_rfind_def slice_index_def py_slice_def
  split_data_def get_etype_def first_value_def get_values_def tn_name_cTypes
  cID_comment_def cID_blankline_def cID_message_def cID_title_def cID_cell_def cID_surface_def
  cID_data_def eID_cell_def eID_sur_def eID_mat_def eID_tr_def eID_tal_def eID_u_def eID_fill_def
  eID_den_def eID_imp_n_def eID_imp_p_def dID_m_def dID_mt_def dID_mpn_def dID_f_def dID_tr_def
  Let_def

lemmas numbering_defs =
  in_range_def py_add_def rename_new_def rename_log_def void_check_def rename_def
  apply_renumbering_def change_def read_range_def read_rename_rule_def read_map_line_def
  add_rename_def range_start_def is_py_int_def sys_maxint_def read_map_file_def LikeFunction_def eID_values_def rename_card_def
  rename_pass_def change_card_def

lemmas lexer_defs =
  is_fc_card_def is_blankline_def gyield_def gyield_if_def has_amp_def int_len_def
  title_and_rest_def get_cards_def

section \<open>The name of a card (claim C7)\<close>

text \<open>
  \<^verbatim>\<open>get_values\<close> sets \<^verbatim>\<open>original_name\<close> in its branches for a cell and for a surface
  card, to the first value; the branch for a data card does not set it, and no other
  place of the sources does.
\<close>

lemma ebind_Inr_iff: "ebind r f = Inr y \<longleftrightarrow> (\<exists>x. r = Inr x \<and> f x = Inr y)"
  by (cases r) (auto simp: ebind_def)

lemma ebind_Inl_iff: "ebind r f = Inl e \<longleftrightarrow> r = Inl e \<or> (\<exists>x. r = Inr x \<and> f x = Inl e)"
  by (cases r) (auto simp: ebind_def)

lemma get_etype_fields [simp]:
  "original_name (get_etype c) = original_name c" "cvalues (get_etype c) = cvalues c"
  "ctype (get_etype c) = ctype c" "dtype (get_etype c) = dtype c"
  "input (get_etype c) = input c" "template (get_etype c) = template c"
  "hidden (get_etype c) = hidden c" "lines (get_etype c) = lines c"
  by (simp_all add: get_etype_def)

lemma protect_nums_fields [simp]:
  "original_name (protect_nums c) = original_name c" "cvalues (protect_nums c) = cvalues c"
  "ctype (protect_nums c) = ctype c" "dtype (protect_nums c) = dtype c"
  "etype (protect_nums c) = etype c" "template (protect_nums c) = template c"
  "lines (protect_nums c) = lines c"
  by (simp_all add: protect_nums_def Let_def)

lemma first_value_Inr: "first_value vt = Inr n \<longleftrightarrow> (\<exists>k rest. vt = (n, k) # rest)"
  by (cases vt) (auto simp: first_value_def)

lemma get_values_cell_surface_name:
  assumes "get_values its c = Inr c'" and "ctype c = cID_cell \<or> ctype c = cID_surface"
  shows "\<exists>v k rest. cvalues c' = (v, k) # rest \<and> original_name c' = Some v"
proof -
  let ?p = "protect_nums c"
  from assms(2) show ?thesis
  proof
    assume ct: "ctype c = cID_cell"
    from assms(1) obtain inpt vt n where "first_value vt = Inr n"
      and "c' = get_etype (?p\<lparr>original_name := Some n, input := inpt, cvalues := vt\<rparr>)"
      by (auto simp: get_values_def Let_def ebind_Inr_iff ct)
    then show ?thesis by (auto simp: first_value_Inr)
  next
    assume ct: "ctype c = cID_surface"
    from assms(1) obtain inpt vt n where "first_value vt = Inr n"
      and "c' = get_etype (?p\<lparr>original_name := Some n, input := inpt, cvalues := vt\<rparr>)"
      by (auto simp: get_values_def Let_def ebind_Inr_iff ct cID_cell_def cID_surface_def)
    then show ?thesis by (auto simp: first_value_Inr)
  qed
qed

lemma get_values_data_name:
  assumes "get_values its c = Inr c'" and "ctype c = cID_data"
  shows "original_name c' = original_name c"
  using assms
  by (auto simp: get_values_def Let_def ebind_Inr_iff cID_cell_def cID_surface_def cID_data_def
        split: if_splits)

lemma get_values_other_name:
  assumes "get_values its c = Inr c'" and "ctype c \<notin> {cID_cell, cID_surface, cID_data}"
  shows "original_name c' = original_name c \<and> cvalues c' = []"
  using assms
  by (auto simp: get_values_def Let_def ebind_Inr_iff split: if_splits)

lemma Card_name:
  assumes "Card ls ct ps = Inr c"
  shows "original_name c = None \<and> ctype c = ct \<and> lines c = ls \<and> cvalues c = [] \<and> hidden c = []"
  using assms
  by (auto simp: Card_def get_input_def Let_def ebind_Inr_iff split: option.splits if_splits)

text \<open>
  Claim C7 (the code departs from it).  The material card \<^verbatim>\<open>m1 1001 1.0\<close> is a
  recognized data card (\<^verbatim>\<open>dtype\<close> is \<^verbatim>\<open>dID.m\<close>, \<^verbatim>\<open>etype\<close> is \<^verbatim>\<open>eID.mat\<close>) whose own
  number \<open>1\<close> is its first value, and after \<^verbatim>\<open>get_values\<close> its \<^verbatim>\<open>original_name\<close> is
  still \<^verbatim>\<open>None\<close>.
\<close>

theorem data_card_original_name_unset:
  "map_sum id (\<lambda>c. (original_name c, cvalues c, dtype c, etype c))
     (ebind (Card [''m1 1001 1.0'' @ [NL]] cID_data 1) (get_values its)) =
   Inr (None, [(VInt 1, eID_mat)], Some dID_m, Some eID_mat)"
  by code_simp

section \<open>The lexer on malformed decks (claim C8)\<close>

text \<open>
  Claim C8 (the code departs from it).  On a deck whose first line is blank
  \<^verbatim>\<open>get_cards\<close> raises \<^verbatim>\<open>IndexError\<close> before it yields anything; on a deck with four
  blank lines after the title and a card behind them it yields the title and the blank
  lines and raises \<^verbatim>\<open>ValueError\<close> where it builds the card, whose kind would be \<open>7\<close>.
\<close>

theorem get_cards_raises:
  "get_cards [[NL]] = ([], Some IndexError) \<and>
   snd (get_cards [''t'' @ [NL], [NL], [NL], [NL], [NL], ''x'' @ [NL]]) = Some ValueError \<and>
   map ctype (fst (get_cards [''t'' @ [NL], [NL], [NL], [NL], [NL], ''x'' @ [NL]])) =
     [cID_title, cID_blankline, cID_blankline, cID_blankline, cID_blankline]"
  by code_simp

section \<open>The compilation of renaming rules (claim C4)\<close>

text \<open>
  What \<^verbatim>\<open>read_map_file\<close> does with the sign: the increment of a rule is the integer of
  the line when the line has no range or the integer is written with \<^verbatim>\<open>+\<close>; otherwise,
  also for an integer written with \<^verbatim>\<open>-\<close>, it is the integer minus the low end of the
  range.
\<close>

lemma add_rename_increment:
  assumes "map_of drename t = Some (d, lst)"
  shows "add_rename drename lno t None k0 v0 = Inr (AList.update t ((Line lno, v0), lst) drename)"
    and "add_rename drename lno t (Some r) ''+'' v0 =
           Inr (AList.update t (d, lst @ [(lno, r, v0)]) drename)"
    and "k0 \<noteq> ''+'' \<Longrightarrow> add_rename drename lno t (Some (RList (lo # hi))) k0 v0 =
           Inr (AList.update t (d, lst @ [(lno, RList (lo # hi), v0 - lo)]) drename)"
  using assms by (simp_all add: add_rename_def range_start_def ebind_def)

text \<open>The second scenario of the spec: the anchor \<^verbatim>\<open>s 5--5: 200\<close>.\<close>

lemma scenario_anchor:
  assumes "eID_items its"
  shows "rename_pass its [''s 5--5: 200''] [''5 px 1.0'' @ [NL]] cID_surface =
           Inr (''200 px 1.0'' @ [NL], [])"
  using assms by (simp add: prim_defs parser_defs numbering_defs tn_id_simps tn_name_simps)

text \<open>The first scenario of the spec: the offset \<^verbatim>\<open>c: +100\<close>.\<close>

lemma scenario_offset:
  assumes "eID_items its"
  shows "rename_pass its [''c: +100''] [''1 0 -2 imp:n=1'' @ [NL]] cID_cell =
           Inr (''101 0 -2 imp:n=1'' @ [NL], [])"
  using assms by (simp add: prim_defs parser_defs numbering_defs tn_id_simps tn_name_simps)

text \<open>
  Claim C4 (the code departs from it).  The map line \<^verbatim>\<open>c 10--20: -5\<close> has an integer
  with a leading sign, so the renamer should return \<open>n + (-5)\<close>, \<open>7\<close> for the cell \<open>12\<close>.
  The compiled rule has the increment \<open>-5 - 10\<close>, and the cell \<open>12\<close> becomes \<open>-3\<close>.
\<close>

theorem minus_with_range_is_anchor:
  assumes "eID_items its"
  shows "map_sum id fst
           (ebind (read_map_file its [''c 10--20: -5'']) (\<lambda>(drename, dchange).
              rename its (LikeFunction drename dchange False) (VInt 12) eID_cell)) =
         Inr (VInt (- 3))"
  using assms by (simp add: prim_defs parser_defs numbering_defs tn_id_simps tn_name_simps)

theorem minus_with_range_is_anchor_witness:
  "eID_items eTypes \<and>
   map_sum id fst
     (ebind (read_map_file eTypes [''c 10--20: -5'']) (\<lambda>(drename, dchange).
        rename eTypes (LikeFunction drename dchange False) (VInt 12) eID_cell)) =
   Inr (VInt (- 3))"
  using minus_with_range_is_anchor [OF eID_items_eTypes] eID_items_eTypes by simp

section \<open>The renaming pass (claims C2, C3 and C6)\<close>

lemma rename_Inr:
  assumes "rename its self n t = Inr (v, w, self')"
  shows "rename_new its (lf_p self) n t = Inr v"
    and "lf_p self' = lf_p self" and "lf_c self' = lf_c self" and "lf_lf self' = lf_lf self"
    and "\<exists>w0. rename_log its self n t v = Inr (w0, self') \<and> w = w0 @ void_check n t v"
  using assms
  by (auto simp: rename_def ebind_Inr_iff rename_log_def split: if_splits option.splits prod.splits)

lemma renumber_loop_Inr:
  assumes "renumber_loop its self vs = Inr (vs', w, self')"
  shows "lf_p self' = lf_p self \<and> lf_c self' = lf_c self \<and> length vs' = length vs \<and>
         (\<forall>i < length vs.
            snd (vs' ! i) = snd (vs ! i) \<and>
            rename_new its (lf_p self) (fst (vs ! i))
              (if snd (vs ! i) = eID_fill then eID_u else snd (vs ! i)) = Inr (fst (vs' ! i)))"
  using assms
proof (induction vs arbitrary: self vs' w self')
  case Nil
  then show ?case by simp
next
  case (Cons x vs)
  obtain v t where x: "x = (v, t)" by (cases x)
  let ?t1 = "if t = eID_fill then eID_u else t"
  from Cons.prems obtain v1 w1 self1 vs1 w2 where
    r: "rename its self v ?t1 = Inr (v1, w1, self1)" and
    l: "renumber_loop its self1 vs = Inr (vs1, w2, self')" and
    e: "vs' = (v1, t) # vs1"
    by (auto simp: x ebind_Inr_iff Let_def)
  note ih = Cons.IH[OF l]
  note rn = rename_Inr[OF r]
  show ?case
  proof (intro conjI allI impI)
    show "lf_p self' = lf_p self" using ih rn by simp
    show "lf_c self' = lf_c self" using ih rn by simp
    show "length vs' = length (x # vs)" using ih e by simp
  next
    fix i assume i: "i < length (x # vs)"
    show "snd (vs' ! i) = snd ((x # vs) ! i)"
      using ih i e x by (cases i) auto
    show "rename_new its (lf_p self) (fst ((x # vs) ! i))
            (if snd ((x # vs) ! i) = eID_fill then eID_u else snd ((x # vs) ! i)) =
          Inr (fst (vs' ! i))"
    proof (cases i)
      case 0
      then show ?thesis using rn(1) e x by (auto split: if_splits)
    next
      case (Suc j)
      then have "j < length vs" using i by simp
      then show ?thesis using ih rn(2) e x Suc by (auto split: if_splits)
    qed
  qed
qed

text \<open>
  Claim C3.  When \<^verbatim>\<open>apply_renumbering\<close> returns, the card has as many values as before
  and each keeps its kind; the new number of a value of kind \<^verbatim>\<open>fill\<close> is the one the
  rules of kind \<^verbatim>\<open>u\<close> give, the new number of any other value the one the rules of its
  own kind give.  The deck \<^verbatim>\<open>1 0 -1 u=4 fill=4\<close> with the map \<^verbatim>\<open>u: +10\<close> is emitted
  as \<^verbatim>\<open>1 0 -1 u=14 fill=14\<close>, without a message.
\<close>

theorem fill_renumbered_as_universe:
  assumes "eID_items its"
  shows "(apply_renumbering its self c = Inr (c', w, self') \<longrightarrow>
            length (cvalues c') = length (cvalues c) \<and>
            (\<forall>i < length (cvalues c).
               snd (cvalues c' ! i) = snd (cvalues c ! i) \<and>
               (snd (cvalues c ! i) = eID_fill \<longrightarrow>
                  rename_new its (lf_p self) (fst (cvalues c ! i)) eID_u
                    = Inr (fst (cvalues c' ! i))) \<and>
               (snd (cvalues c ! i) \<noteq> eID_fill \<longrightarrow>
                  rename_new its (lf_p self) (fst (cvalues c ! i)) (snd (cvalues c ! i))
                    = Inr (fst (cvalues c' ! i))))) \<and>
         rename_pass its [''u: +10''] [''1 0 -1 u=4 fill=4'' @ [NL]] cID_cell =
           Inr (''1 0 -1 u=14 fill=14'' @ [NL], [])"
proof (intro conjI impI)
  assume a: "apply_renumbering its self c = Inr (c', w, self')"
  then obtain vs' where l: "renumber_loop its self (cvalues c) = Inr (vs', w, self')"
    and c': "c' = c\<lparr>cvalues := vs'\<rparr>"
    by (auto simp: apply_renumbering_def ebind_Inr_iff)
  note r = renumber_loop_Inr[OF l]
  show "length (cvalues c') = length (cvalues c)" using r c' by simp
  show "\<forall>i < length (cvalues c).
               snd (cvalues c' ! i) = snd (cvalues c ! i) \<and>
               (snd (cvalues c ! i) = eID_fill \<longrightarrow>
                  rename_new its (lf_p self) (fst (cvalues c ! i)) eID_u
                    = Inr (fst (cvalues c' ! i))) \<and>
               (snd (cvalues c ! i) \<noteq> eID_fill \<longrightarrow>
                  rename_new its (lf_p self) (fst (cvalues c ! i)) (snd (cvalues c ! i))
                    = Inr (fst (cvalues c' ! i)))"
    using r c' by auto
next
  show "rename_pass its [''u: +10''] [''1 0 -1 u=4 fill=4'' @ [NL]] cID_cell =
           Inr (''1 0 -1 u=14 fill=14'' @ [NL], [])"
    using assms by (simp add: prim_defs parser_defs numbering_defs tn_id_simps tn_name_simps)
qed

text \<open>
  The witness: the card of the scenario and a table in which the rules of \<^verbatim>\<open>u\<close> add
  ten and the rules of \<^verbatim>\<open>fill\<close> would add a thousand.
\<close>

definition fill_card :: card where
  "fill_card = \<lparr>lines = [], ctype = cID_cell, etype = Some eID_cell, dtype = None, pos = 1,
     template = ''{}'', input = [''{} {} -{} u={} fill={}''], hidden = [],
     cvalues = [(VInt 1, eID_cell), (VInt 0, eID_mat), (VInt 1, eID_sur), (VInt 4, eID_u),
                (VInt 4, eID_fill)],
     original_name = Some (VInt 1)\<rparr>"

definition fill_rules :: likefunction where
  "fill_rules = LikeFunction [(eID_u, ((Line 1, 10), [])), (eID_fill, ((Line 2, 1000), []))] [] False"

theorem fill_renumbered_as_universe_witness:
  "eID_items eTypes \<and>
   map_sum id (\<lambda>(c', w, self'). cvalues c') (apply_renumbering eTypes fill_rules fill_card) =
     Inr [(VInt 1, eID_cell), (VInt 0, eID_mat), (VInt 1, eID_sur), (VInt 14, eID_u),
          (VInt 14, eID_fill)] \<and>
   rename_new eTypes (lf_p fill_rules) (VInt 4) eID_u = Inr (VInt 14) \<and>
   rename_pass eTypes [''u: +10''] [''1 0 -1 u=4 fill=4'' @ [NL]] cID_cell =
     Inr (''1 0 -1 u=14 fill=14'' @ [NL], [])"
proof -
  obtain c' w self' where a: "apply_renumbering eTypes fill_rules fill_card = Inr (c', w, self')"
    and v: "cvalues c' = [(VInt 1, eID_cell), (VInt 0, eID_mat), (VInt 1, eID_sur),
                          (VInt 14, eID_u), (VInt 14, eID_fill)]"
    by (simp add: fill_rules_def fill_card_def numbering_defs parser_defs
          tn_name_simps[OF eID_items_eTypes])
  have all: "\<forall>i < length (cvalues fill_card).
               snd (cvalues fill_card ! i) = eID_fill \<longrightarrow>
                  rename_new eTypes (lf_p fill_rules) (fst (cvalues fill_card ! i)) eID_u
                    = Inr (fst (cvalues c' ! i))"
    using fill_renumbered_as_universe [OF eID_items_eTypes, of fill_rules fill_card c' w self'] a
    by blast
  have i4: "4 < length (cvalues fill_card)" "snd (cvalues fill_card ! 4) = eID_fill"
    by (simp_all add: fill_card_def)
  have "rename_new eTypes (lf_p fill_rules) (fst (cvalues fill_card ! 4)) eID_u =
          Inr (fst (cvalues c' ! 4))"
    using all[rule_format, OF i4] .
  then have "rename_new eTypes (lf_p fill_rules) (VInt 4) eID_u = Inr (VInt 14)"
    by (simp add: v fill_card_def)
  moreover have "rename_pass eTypes [''u: +10''] [''1 0 -1 u=4 fill=4'' @ [NL]] cID_cell =
     Inr (''1 0 -1 u=14 fill=14'' @ [NL], [])"
    using fill_renumbered_as_universe [OF eID_items_eTypes] by simp
  ultimately show ?thesis
    using a v eID_items_eTypes by simp
qed

lemma apply_renumbering_frame:
  assumes "apply_renumbering its self c = Inr (c', w, self')"
  shows "lf_p self' = lf_p self \<and> lf_c self' = lf_c self"
  using assms renumber_loop_Inr
  by (fastforce simp: apply_renumbering_def ebind_Inr_iff)







section \<open>The changing pass (claim C5)\<close>

text \<open>
  A table of changing rules with one rule, for the cells \<open>3\<close> to \<open>4\<close>: \<^verbatim>\<open>imp:n\<close> becomes
  \<open>0\<close>.  It is built directly, since \<^verbatim>\<open>read_map_file\<close> raises \<^verbatim>\<open>TypeError\<close> on every line
  with a changing rule.  \<open>imp_rules_used\<close> is the table after one card has been changed.
\<close>

definition imp_rules :: likefunction where
  "imp_rules =
     LikeFunction [] [(eID_cell, ((NoLine, []), [(1, RList [3, 4], [(eID_imp_n, ''0'')])]))] False"

definition imp_rules_used :: likefunction where
  "imp_rules_used = LikeFunction [] [(eID_cell, ((NoLine, []), [(1, RList [3, 4], [])]))] False"

text \<open>
  Claim C5 (the code departs from it).  The first card in the range is changed as the
  claim says.  The second card in the range, changed with the table the first call
  leaves, keeps \<^verbatim>\<open>imp:n=1\<close>; on a card with two values of kind \<^verbatim>\<open>imp:n\<close> only the first
  is replaced; and the map file of the scenario, \<^verbatim>\<open>c 3--3: imp:n=0\<close>, is not compiled
  at all.
\<close>

theorem change_rule_used_once:
  assumes "eID_items its"
  shows "change_card its imp_rules [''3 5 -1.0 -4 imp:n=1 imp:p=1'' @ [NL]] cID_cell =
           Inr (''3 5 -1.0 -4 imp:n=0 imp:p=1'' @ [NL], imp_rules_used) \<and>
         change_card its imp_rules_used [''4 5 -1.0 -3 imp:n=1 imp:p=1'' @ [NL]] cID_cell =
           Inr (''4 5 -1.0 -3 imp:n=1 imp:p=1'' @ [NL], imp_rules_used) \<and>
         map_sum id fst (change_card its imp_rules [''3 0 -4 imp:n=1 imp:n=1'' @ [NL]] cID_cell) =
           Inr (''3 0 -4 imp:n=0 imp:n=1'' @ [NL]) \<and>
         read_map_file its [''c 3--3: imp:n=0''] = Inl TypeError"
  using assms
  by (simp add: prim_defs parser_defs numbering_defs tn_id_simps tn_name_simps
        imp_rules_def imp_rules_used_def)

theorem change_rule_used_once_witness:
  "eID_items eTypes \<and>
   change_card eTypes imp_rules_used [''4 5 -1.0 -3 imp:n=1 imp:p=1'' @ [NL]] cID_cell =
     Inr (''4 5 -1.0 -3 imp:n=1 imp:p=1'' @ [NL], imp_rules_used)"
  using change_rule_used_once [OF eID_items_eTypes] eID_items_eTypes by simp

section \<open>The tables of the rules (claim C6)\<close>

text \<open>
  \<^verbatim>\<open>read_map_file\<close> never writes to the table of the changing rules: it returns the one
  it starts with, in which every rule is empty.
\<close>

lemma read_map_lines_dchange:
  "read_map_lines its lno f (dr, dc) = Inr (dr', dc') \<Longrightarrow> dc' = dc"
proof (induction f arbitrary: lno dr)
  case Nil
  then show ?case by simp
next
  case (Cons l ls)
  from Cons.prems obtain r where
    k: "(case r of
           None \<Rightarrow> read_map_lines its (Suc lno) ls (dr, dc)
         | Some (t, rg, RenameRule k0 v0) \<Rightarrow>
             ebind (add_rename dr (Suc lno) t rg k0 v0) (\<lambda>drename'.
               read_map_lines its (Suc lno) ls (drename', dc))
         | Some (t, rg, ChangeRule rule) \<Rightarrow> Inl TypeError) = Inr (dr', dc')"
    by (auto simp: ebind_Inr_iff Let_def)
  show ?case
  proof (cases r)
    case None
    then show ?thesis using k Cons.IH by simp
  next
    case (Some x)
    obtain t rg mr where x: "x = (t, rg, mr)" by (cases x)
    show ?thesis
    proof (cases mr)
      case (RenameRule k0 v0)
      then obtain drename' where
        "read_map_lines its (Suc lno) ls (drename', dc) = Inr (dr', dc')"
        using k Some x by (auto simp: ebind_Inr_iff)
      then show ?thesis by (rule Cons.IH)
    next
      case (ChangeRule rule)
      then show ?thesis using k Some x by simp
    qed
  qed
qed

lemma read_map_file_dchange:
  assumes "read_map_file its f = Inr (dr, dc)"
  shows "dc = map (\<lambda>k. (k, ((NoLine, []), []))) eID_values"
  using assms read_map_lines_dchange unfolding read_map_file_def by blast

lemma map_of_const:
  "map_of (map (\<lambda>k. (k, v)) ks) k = Some x \<Longrightarrow> x = v"
  by (induction ks) (auto split: if_splits)

lemma change_values_empty:
  "change_values its [] vals = Inr (vals', r) \<Longrightarrow> r = [] \<and> vals' = vals"
proof (induction vals arbitrary: vals' r)
  case Nil
  then show ?case by simp
next
  case (Cons x vals)
  obtain v t where x: "x = (v, t)" by (cases x)
  from Cons.prems obtain vs' r' where
    r: "change_values its [] vals = Inr (vs', r')" and e: "vals' = (v, t) # vs'" "r = r'"
    by (auto simp: x ebind_Inr_iff Let_def split: option.splits)
  show ?case using Cons.IH[OF r] e x by simp
qed

lemma change_empty_rules:
  assumes t: "lf_c self = map (\<lambda>k. (k, ((NoLine, []), []))) ks"
    and c: "change its self c = Inr (c', self')"
  shows "self' = self \<and> c' = c"
proof (cases "original_name c")
  case None
  then show ?thesis using c by (simp add: change_def)
next
  case (Some name)
  show ?thesis
  proof (cases "etype c")
    case None
    then show ?thesis using c Some by (simp add: change_def)
  next
    case et: (Some et)
    show ?thesis
    proof (cases "map_of (lf_c self) et")
      case None
      then show ?thesis using c Some et by (simp add: change_def)
    next
      case e: (Some e)
      have e0: "e = ((NoLine, []), [])"
        using e t map_of_const by metis
      from c obtain vals' entry' where
        w: "change_walk its name (cvalues c) [] [] (NoLine, []) = Inr (vals', entry')" and
        r: "c' = c\<lparr>cvalues := vals'\<rparr>"
           "self' = self\<lparr>lf_c := AList.update et entry' (lf_c self)\<rparr>"
        by (auto simp: change_def Some et e e0 ebind_Inr_iff)
      from w obtain r' where
        v: "change_values its [] (cvalues c) = Inr (vals', r')" and
        en: "entry' = ((NoLine, r'), [])"
        by (auto simp: ebind_Inr_iff)
      have "r' = []" "vals' = cvalues c" using change_values_empty[OF v] by simp_all
      then have "entry' = e" "c' = c" using en e0 r(1) by simp_all
      moreover have "AList.update et e (lf_c self) = lf_c self"
        by (rule update_triv[OF e])
      ultimately show ?thesis using r(2) by simp
    qed
  qed
qed

text \<open>
  Claim C6.  The tables that \<^verbatim>\<open>read_map_file\<close> has compiled stay as they are when the
  engine is applied to a card, whatever the card and the state of the log: \<^verbatim>\<open>rename\<close>
  and \<^verbatim>\<open>apply_renumbering\<close> only read the renaming rules, and \<^verbatim>\<open>change\<close>, which removes
  from a rule the keys it has used, finds only empty rules in a compiled table.
\<close>

theorem compiled_tables_unchanged:
  assumes "read_map_file its f = Inr (dr, dc)" and "lf_p self = dr" and "lf_c self = dc"
  shows "(rename its self n t = Inr (v, w, self1) \<longrightarrow> lf_p self1 = dr \<and> lf_c self1 = dc) \<and>
         (apply_renumbering its self c = Inr (c2, w2, self2) \<longrightarrow>
            lf_p self2 = dr \<and> lf_c self2 = dc) \<and>
         (change its self c = Inr (c3, self3) \<longrightarrow> lf_p self3 = dr \<and> lf_c self3 = dc)"
proof (intro conjI impI)
  assume "rename its self n t = Inr (v, w, self1)"
  from rename_Inr(2,3)[OF this] show "lf_p self1 = dr" "lf_c self1 = dc"
    using assms by simp_all
next
  assume "apply_renumbering its self c = Inr (c2, w2, self2)"
  from apply_renumbering_frame[OF this] show "lf_p self2 = dr" "lf_c self2 = dc"
    using assms by simp_all
next
  assume c: "change its self c = Inr (c3, self3)"
  have "lf_c self = map (\<lambda>k. (k, ((NoLine, []), []))) eID_values"
    using read_map_file_dchange[OF assms(1)] assms(3) by simp
  from change_empty_rules[OF this c] show "lf_p self3 = dr" "lf_c self3 = dc"
    using assms by simp_all
qed

text \<open>
  The witness: the tables compiled from the map \<^verbatim>\<open>u: +10\<close>, applied with a log to the card
  \<^verbatim>\<open>1 0 -1 u=4 fill=4\<close>.
\<close>

theorem compiled_tables_unchanged_witness:
  "\<exists>dr dc.
     read_map_file eTypes [''u: +10''] = Inr (dr, dc) \<and>
     map_sum id (\<lambda>(c', w, self'). (cvalues c', lf_p self' = dr, lf_c self' = dc))
       (apply_renumbering eTypes (LikeFunction dr dc True) fill_card) =
       Inr ([(VInt 1, eID_cell), (VInt 0, eID_mat), (VInt 1, eID_sur), (VInt 14, eID_u),
             (VInt 14, eID_fill)], True, True) \<and>
     map_sum id (\<lambda>(c', self'). (cvalues c', lf_p self' = dr, lf_c self' = dc))
       (change eTypes (LikeFunction dr dc True) fill_card) =
       Inr (cvalues fill_card, True, True)"
proof -
  obtain dr dc where rm: "read_map_file eTypes [''u: +10''] = Inr (dr, dc)"
    by (simp add: prim_defs parser_defs numbering_defs tn_id_simps[OF eID_items_eTypes])
  have tabs: "lf_p (LikeFunction dr dc True) = dr" "lf_c (LikeFunction dr dc True) = dc"
    by (simp_all add: LikeFunction_def)
  have dc: "dc = map (\<lambda>k. (k, ((NoLine, []), []))) eID_values"
    by (rule read_map_file_dchange[OF rm])
  have dr: "dr = AList.update eID_u ((Line 1, 10), []) (map (\<lambda>k. (k, ((NoLine, 0), []))) eID_values)"
    using rm
    by (simp add: prim_defs parser_defs numbering_defs tn_id_simps[OF eID_items_eTypes])
  obtain c2 w2 self2 where
    a: "apply_renumbering eTypes (LikeFunction dr dc True) fill_card = Inr (c2, w2, self2)" and
    v: "cvalues c2 = [(VInt 1, eID_cell), (VInt 0, eID_mat), (VInt 1, eID_sur), (VInt 14, eID_u),
             (VInt 14, eID_fill)]"
    by (simp add: dr dc fill_card_def numbering_defs parser_defs
          tn_name_simps[OF eID_items_eTypes])
  obtain c3 self3 where
    c: "change eTypes (LikeFunction dr dc True) fill_card = Inr (c3, self3)" and
    v3: "cvalues c3 = cvalues fill_card"
    by (simp add: dr dc fill_card_def numbering_defs parser_defs
          tn_name_simps[OF eID_items_eTypes])
  note th = compiled_tables_unchanged [OF rm tabs, of "VInt 4" eID_u "VInt 14" "[]" self2
      fill_card c2 w2 self2 c3 self3]
  have "lf_p self2 = dr \<and> lf_c self2 = dc" "lf_p self3 = dr \<and> lf_c self3 = dc"
    using th a c by blast+
  then show ?thesis
    using rm a c v v3 by simp
qed

section \<open>When the construction of a card raises (claim C10)\<close>

text \<open>
  A line has a delimiter when it holds a newline, or a whitespace character followed by
  \<^verbatim>\<open>$\<close> or \<^verbatim>\<open>&\<close>: the strings that \<^verbatim>\<open>re_end\<close> matches.
\<close>

fun has_delimiter :: "string \<Rightarrow> bool" where
  "has_delimiter [] = False"
| "has_delimiter [c] = (c = NL)"
| "has_delimiter (c # d # cs) =
     (c = NL \<or> (isspace c \<and> d \<in> {CHR ''$'', CHR ''&''}) \<or> has_delimiter (d # cs))"

lemma re_end_search_None: "re_end_search l = None \<longleftrightarrow> \<not> has_delimiter l"
  by (induction l rule: has_delimiter.induct) auto


lemma get_input_loop_Inl: "get_input_loop ls = Inl e \<Longrightarrow> e = AttributeError"
  by (induction ls arbitrary: e)
     (auto simp: ebind_Inl_iff split: if_splits option.splits)

lemma get_input_loop_Inr:
  "(\<exists>r. get_input_loop ls = Inr r) \<longleftrightarrow> (\<forall>l \<in> set ls. is_commented l \<or> has_delimiter l)"
proof (induction ls)
  case Nil
  then show ?case by simp
next
  case (Cons l ls)
  show ?case
  proof (cases "is_commented l")
    case True
    then show ?thesis using Cons by (auto simp: ebind_Inr_iff)
  next
    case False
    show ?thesis
    proof (cases "re_end_search l")
      case None
      then have "\<not> has_delimiter l" by (simp add: re_end_search_None)
      then show ?thesis using False None by simp
    next
      case (Some d)
      then have "has_delimiter l" using re_end_search_None[of l] by simp
      then show ?thesis using False Some Cons by (auto simp: ebind_Inr_iff)
    qed
  qed
qed

lemma Card_valid_kind:
  assumes "tn_name cTypes ct \<noteq> None"
  shows "Card ls ct ps =
           get_input \<lparr>lines = ls, ctype = ct, etype = None, dtype = None, pos = ps,
                      template = [], input = [], hidden = [], cvalues = [],
                      original_name = None\<rparr>"
  using assms by (auto simp: Card_def)

text \<open>
  Claim C10, as amended.  For a number \<open>ct\<close> that is a card kind: a comment card, a
  blank-line card and a tally comment card (\<^verbatim>\<open>fc\<close>) are always built; any other card is
  built exactly when each of its lines is commented or has a delimiter, and otherwise
  \<^verbatim>\<open>get_input\<close> raises \<^verbatim>\<open>AttributeError\<close>.
\<close>

theorem card_built_iff_delimited:
  assumes "tn_name cTypes ct \<noteq> None"
  shows "(ct \<in> {cID_comment, cID_blankline} \<or> re_fc_card_search (concat ls) \<longrightarrow>
            (\<exists>c. Card ls ct ps = Inr c)) \<and>
         (ct \<notin> {cID_comment, cID_blankline} \<and> \<not> re_fc_card_search (concat ls) \<longrightarrow>
            ((\<exists>c. Card ls ct ps = Inr c) \<longleftrightarrow>
               (\<forall>l \<in> set ls. is_commented l \<or> has_delimiter l)) \<and>
            ((\<exists>l \<in> set ls. \<not> is_commented l \<and> \<not> has_delimiter l) \<longrightarrow>
               Card ls ct ps = Inl AttributeError))"
proof (intro conjI impI)
  assume "ct \<in> {cID_comment, cID_blankline} \<or> re_fc_card_search (concat ls)"
  then show "\<exists>c. Card ls ct ps = Inr c"
    by (auto simp: Card_valid_kind[OF assms] get_input_def Let_def)
next
  assume a: "ct \<notin> {cID_comment, cID_blankline} \<and> \<not> re_fc_card_search (concat ls)"
  have iff: "(\<exists>c. Card ls ct ps = Inr c) \<longleftrightarrow> (\<exists>r. get_input_loop ls = Inr r)"
    using a by (auto simp: Card_valid_kind[OF assms] get_input_def Let_def ebind_Inr_iff)
  show "(\<exists>c. Card ls ct ps = Inr c) \<longleftrightarrow> (\<forall>l \<in> set ls. is_commented l \<or> has_delimiter l)"
    using iff get_input_loop_Inr by simp
  assume "\<exists>l \<in> set ls. \<not> is_commented l \<and> \<not> has_delimiter l"
  then have "\<not> (\<exists>r. get_input_loop ls = Inr r)"
    using get_input_loop_Inr by blast
  then obtain e where e: "get_input_loop ls = Inl e"
    by (cases "get_input_loop ls") auto
  then have "e = AttributeError" by (rule get_input_loop_Inl)
  then show "Card ls ct ps = Inl AttributeError"
    using a e by (simp add: Card_valid_kind[OF assms] get_input_def Let_def ebind_def)
qed

theorem card_built_iff_delimited_witness:
  "tn_name cTypes cID_cell \<noteq> None \<and>
   \<not> has_delimiter ''1 0 -1'' \<and>
   Card [''1 0 -1 &'' @ [NL], ''     imp:n=1''] cID_cell 1 = Inl AttributeError \<and>
   (\<exists>c. Card [''1 0 -1 &'' @ [NL], ''     imp:n=1 $ end''] cID_cell 1 = Inr c)"
proof -
  have k: "tn_name cTypes cID_cell \<noteq> None"
    by (simp add: tn_name_cTypes cID_cell_def)
  have ct: "cID_cell \<notin> {cID_comment, cID_blankline}"
    by (simp add: cID_cell_def cID_comment_def cID_blankline_def)
  have fc1: "\<not> re_fc_card_search (concat [''1 0 -1 &'' @ [NL], ''     imp:n=1''])"
    and fc2: "\<not> re_fc_card_search (concat [''1 0 -1 &'' @ [NL], ''     imp:n=1 $ end''])"
    by (simp_all add: re_fc_card_search_def isspace_def)
  have bad: "\<exists>l \<in> set [''1 0 -1 &'' @ [NL], ''     imp:n=1'']. \<not> is_commented l \<and> \<not> has_delimiter l"
    by (simp add: is_commented_def isspace_def NL_def)
  have good: "\<forall>l \<in> set [''1 0 -1 &'' @ [NL], ''     imp:n=1 $ end'']. is_commented l \<or> has_delimiter l"
    by (simp add: isspace_def NL_def)
  have "Card [''1 0 -1 &'' @ [NL], ''     imp:n=1''] cID_cell 1 = Inl AttributeError"
    using card_built_iff_delimited [OF k, of "[''1 0 -1 &'' @ [NL], ''     imp:n=1'']" 1] ct fc1 bad
    by blast
  moreover have "\<exists>c. Card [''1 0 -1 &'' @ [NL], ''     imp:n=1 $ end''] cID_cell 1 = Inr c"
    using card_built_iff_delimited [OF k, of "[''1 0 -1 &'' @ [NL], ''     imp:n=1 $ end'']" 1] ct fc2 good
    by blast
  moreover have "\<not> has_delimiter ''1 0 -1''"
    by (simp add: isspace_def NL_def)
  ultimately show ?thesis using k by simp
qed

text \<open>
  The claim as it stands fails.  A tally comment card whose line has neither a newline
  nor \<^verbatim>\<open>$\<close> nor \<^verbatim>\<open>&\<close> is built, since \<^verbatim>\<open>get_input\<close> does not search a delimiter in
  it; and a surface card whose only delimiter is a tabulator followed by \<^verbatim>\<open>$\<close> is built
  too, without a newline, a space before \<^verbatim>\<open>$\<close> or a space before \<^verbatim>\<open>&\<close>.
\<close>

theorem fc_card_built_without_delimiter:
  "map_sum id (\<lambda>c. (input c, template c)) (Card [''fc4 flux in cell 1''] cID_data 1) =
     Inr ([''fc4 flux in cell 1''], ''{}'') \<and>
   map_sum id (\<lambda>c. (input c, template c)) (Card [''1 so 5'' @ [CHR 0x09] @ ''$ c''] cID_surface 1) =
     Inr ([''1 so 5''], ''{}'' @ [CHR 0x09] @ ''$ c'')"
  by code_simp

section \<open>The round trip of a card (claim C1)\<close>


text \<open>A card of the lexer, its values extracted, emitted without wrapping.\<close>

definition emit_parsed :: "(string \<times> int) list \<Rightarrow> string list \<Rightarrow> int \<Rightarrow> error + string" where
  "emit_parsed its ls ct = ebind (Card ls ct 1) (\<lambda>c. ebind (get_values its c) card_emit)"






















section \<open>Placeholders: substrings replaced one after another, and put back\<close>


text \<open>The text in which the first placeholders stand for the strings \<open>xs\<close>, in this order.\<close>

fun fill :: "char \<Rightarrow> string \<Rightarrow> string list \<Rightarrow> string" where
  "fill z [] xs = []"
| "fill z (c # t) [] = c # t"
| "fill z (c # t) (x # xs) = (if c = z then x @ fill z t xs else c # fill z t (x # xs))"

lemma fill_Nil [simp]: "fill z t [] = t"
  by (cases t) simp_all


lemma fill_Cons_mark: "fill z (z # t) (x # xs) = x @ fill z t xs"
  by simp




lemma find_sub_le: "find_sub s t = Some p \<Longrightarrow> p + length s \<le> length t"
proof (induction t arbitrary: p)
  case Nil
  then show ?case by (simp split: if_splits)
next
  case (Cons c cs)
  show ?case
  proof (cases "prefix s (c # cs)")
    case True
    then have "p = 0" using Cons.prems by simp
    then show ?thesis using prefix_length_le[OF True] by simp
  next
    case False
    then obtain q where q: "find_sub s cs = Some q" "p = Suc q"
      using Cons.prems by auto
    show ?thesis using Cons.IH[OF q(1)] q(2) by simp
  qed
qed









section \<open>The formats of the values\<close>













section \<open>Texts and their lines\<close>










section \<open>The values of a card and the text they were read from\<close>



text \<open>
  The value \<open>v\<close> is read from the token \<open>s\<close>: an integer as \<^verbatim>\<open>int(s)\<close>, a string as \<open>s\<close>
  itself; and the format that a splitter makes of a token.
\<close>

definition read_from :: "string \<Rightarrow> pyval \<times> int \<Rightarrow> bool" where
  "read_from s v = (case fst v of VInt n \<Rightarrow> py_int s = Inr n | VStr x \<Rightarrow> x = s)"

definition token_fmt :: "string \<Rightarrow> pyval \<times> int \<Rightarrow> string" where
  "token_fmt s v = (case fst v of VInt n \<Rightarrow> fmt_d s | VStr x \<Rightarrow> fmt_s s)"











section \<open>The splitters replace the tokens of the values\<close>

text \<open>
  The state of a splitter that started with the text \<open>t\<close>: tokens have been replaced one
  after another, the values were read from them, and the formats are those of the tokens.
\<close>

definition traced :: "string \<Rightarrow> split_state \<Rightarrow> bool" where
  "traced t st \<longleftrightarrow>
     (\<exists>toks. list_all2 read_from toks (fst (snd st)) \<and>
             snd (snd st) = map2 token_fmt toks (fst (snd st)) \<and>
             fst st = fold (\<lambda>s i. replace1 s tp i) toks t)"

lemma traced_init: "traced t (t, [], [])"
  by (simp add: traced_def)

lemma traced_step:
  assumes "traced t (i, vs, fs)" and "read_from s v" and "f = token_fmt s v"
  shows "traced t (replace1 s tp i, vs @ [v], fs @ [f])"
proof -
  from assms(1) obtain toks where
    r: "list_all2 read_from toks vs" and
    f: "fs = map2 token_fmt toks vs" and
    i: "i = fold (\<lambda>s i. replace1 s tp i) toks t"
    by (auto simp: traced_def)
  have l: "length toks = length vs" using r by (rule list_all2_lengthD)
  have "list_all2 read_from (toks @ [s]) (vs @ [v])"
    using r assms(2) by (simp add: list_all2_appendI)
  moreover have "fs @ [f] = map2 token_fmt (toks @ [s]) (vs @ [v])"
    using l f assms(3) by simp
  moreover have "replace1 s tp i = fold (\<lambda>s i. replace1 s tp i) (toks @ [s]) t"
    using i by simp
  ultimately show ?thesis unfolding traced_def by (metis fst_conv snd_conv)
qed

lemma traced_int:
  assumes "traced t (i, vs, fs)" and "py_int s = Inr n"
  shows "traced t (replace1 s tp i, vs @ [(VInt n, k)], fs @ [fmt_d s])"
  by (rule traced_step[OF assms(1)]) (simp_all add: read_from_def token_fmt_def assms(2))




lemma tally_loop_traced:
  "tally_loop hasu typ xs st = Inr st' \<Longrightarrow> traced t st \<Longrightarrow> traced t st'"
proof (induction xs arbitrary: st)
  case Nil
  then show ?case by simp
next
  case (Cons s rest)
  obtain i vs fs where st: "st = (i, vs, fs)" by (cases st)
  from Cons.prems(1) obtain n k where
    n: "py_int (tl s) = Inr n" and
    r: "tally_loop hasu typ rest (replace1 (tl s) tp i, vs @ [(VInt n, k)], fs @ [fmt_d (tl s)]) =
          Inr st'"
    by (auto simp: st Let_def ebind_Inr_iff)
  show ?case
    by (rule Cons.IH[OF r]) (rule traced_int[OF Cons.prems(2)[unfolded st] n])
qed

text \<open>The result of a splitter on the text \<open>t\<close>.\<close>

definition tokens_result :: "string \<Rightarrow> string list \<times> (pyval \<times> int) list \<Rightarrow> bool" where
  "tokens_result t r \<longleftrightarrow>
     (\<exists>toks. list_all2 read_from toks (snd r) \<and>
             fst r = put_formats (map2 token_fmt toks (snd r))
                       (fold (\<lambda>s i. replace1 s tp i) toks t))"

lemma traced_result:
  assumes "traced t (i, vs, fs)"
  shows "tokens_result t (put_formats fs i, vs)"
  using assms by (auto simp: traced_def tokens_result_def)




lemma tokens_result_tally:
  assumes "tally_loop hasu typ xs (replace1 a tp t, [(VInt j, k)], [fmt_d a]) = Inr (i, vs, fs)"
    and "py_int a = Inr j"
  shows "tokens_result t (put_formats fs i, vs)"
proof -
  have "traced t (replace1 a tp t, [(VInt j, k)], [fmt_d a])"
    using traced_int[OF traced_init assms(2)] by simp
  from traced_result[OF tally_loop_traced[OF assms(1) this]] show ?thesis .
qed









text \<open>A cell card on four lines, with a comment line inside and both continuation marks.\<close>

lemma round_trip_continued_card:
  "emit_parsed eTypes
     [''2 1 -7.8 -10 11 $ steel'' @ [NL], ''c inner comment'' @ [NL],
      ''     imp:n=1 &'' @ [NL], ''     imp:p=1'' @ [NL]] cID_cell =
   Inr (''2 1 -7.8 -10 11 $ steel'' @ [NL] @ ''c inner comment'' @ [NL] @
        ''     imp:n=1 &'' @ [NL] @ ''     imp:p=1'' @ [NL])"
  by code_simp








end
